theory Spec2Isabelle
  imports Main
begin

section \<open>Python values\<close>

text \<open>
  Python strings are modelled as \<open>string\<close>, a value that may be \<open>None\<close> as an
  option. An \<open>if v:\<close> on such a value is false for \<open>None\<close> and for the empty
  string; \<open>truthy\<close> is that test. An f-string renders \<open>None\<close> as the text
  \<open>None\<close>; \<open>fmt\<close> is that rendering.
\<close>

definition truthy :: "string option \<Rightarrow> bool" where
  "truthy v = (case v of None \<Rightarrow> False | Some s \<Rightarrow> s \<noteq> [])"

definition fmt :: "string option \<Rightarrow> string" where
  "fmt v = (case v of None \<Rightarrow> ''None'' | Some s \<Rightarrow> s)"

text \<open>
  The value of a date column as the driver gets it. The columns \<open>startDate\<close> and
  \<open>dueDate\<close> are \<open>DateTimeField\<close>s: the field turns stored text that
  reads as a date or a time into a \<open>datetime\<close> (kept here by its year, month and
  day, the only part a date has) and hands on every other stored value as it is, text as a
  \<open>str\<close> and a number as a number. NULL is \<open>None\<close>.
  \<open>truthy_value\<close> is \<open>if v:\<close> on such a value: a \<open>datetime\<close> is
  always true, a number when it is not zero.
\<close>

datatype date_value = Str string | Datetime nat nat nat | Num int

definition truthy_value :: "date_value option \<Rightarrow> bool" where
  "truthy_value v =
     (case v of
        None \<Rightarrow> False
      | Some (Str s) \<Rightarrow> s \<noteq> []
      | Some (Datetime y m d) \<Rightarrow> True
      | Some (Num n) \<Rightarrow> n \<noteq> 0)"

text \<open>
  Exceptions. \<open>HttpError\<close> is the error of the remote-service library, with the
  status of the response. \<open>TypeError\<close> is what \<open>strptime\<close> raises on an
  argument that is not a \<open>str\<close>, \<open>DoesNotExist\<close> what the reader raises
  when it follows a foreign key to a row that is not there. \<open>OtherException\<close>
  stands for any other exception, such as the errors of the transport below a request
  (the server is not reached, the connection times out, the token cannot be refreshed).
  A computation that may raise returns \<open>exn + 'a\<close>, with \<open>Inl\<close> for the
  raised exception.
\<close>

datatype exn = HttpError nat | TypeError | DoesNotExist | OtherException

section \<open>things_reader.py\<close>

record TMArea =
  TMArea_uuid :: string
  TMArea_title :: "string option"
  TMArea_trashed :: int

record TMTask =
  TMTask_uuid :: string
  TMTask_type :: int
  TMTask_title :: "string option"
  TMTask_notes :: "string option"
  TMTask_area :: "string option"
  TMTask_project :: "string option"
  TMTask_heading :: "string option"
  TMTask_status :: "string option"
  TMTask_startDate :: "date_value option"
  TMTask_dueDate :: "date_value option"
  TMTask_trashed :: int

text \<open>
  The reader: the two tables in the order the queries yield their rows, and whether the
  connection has been closed. The foreign keys are kept as the column values (the uuid
  of the row referred to, or \<open>None\<close> for NULL); a key need not refer to a row
  of its table. Titles and notes may be NULL.
\<close>

record ThingsReader =
  areas_table :: "TMArea list"
  tasks_table :: "TMTask list"
  is_closed :: bool

definition close :: "ThingsReader \<Rightarrow> ThingsReader" where
  "close r = (if \<not> is_closed r then r\<lparr>is_closed := True\<rparr> else r)"

text \<open>The dictionaries the accessors return, one record for each set of keys.\<close>

record area_dict =
  ad_uuid :: string
  ad_title :: "string option"

record project_dict =
  pd_uuid :: string
  pd_title :: "string option"
  pd_notes :: "string option"
  pd_area_uuid :: "string option"

record heading_dict =
  hd_uuid :: string
  hd_title :: "string option"

record task_dict =
  td_uuid :: string
  td_title :: "string option"
  td_notes :: "string option"
  td_status :: "string option"
  td_due_date :: "date_value option"
  td_project_uuid :: "string option"
  td_area_uuid :: "string option"
  td_heading_uuid :: "string option"

record subtask_dict =
  sd_uuid :: string
  sd_title :: "string option"
  sd_notes :: "string option"
  sd_status :: "string option"
  sd_due_date :: "date_value option"

definition get_areas :: "ThingsReader \<Rightarrow> area_dict list" where
  "get_areas r =
     map (\<lambda>area. \<lparr>ad_uuid = TMArea_uuid area, ad_title = TMArea_title area\<rparr>)
       (filter (\<lambda>area. TMArea_trashed area = 0) (areas_table r))"

text \<open>
  \<open>x.ref.uuid if x.ref else None\<close> on a foreign key \<open>ref\<close>: reading the
  attribute of a key that is not NULL fetches the row with that uuid from the table the key
  points into (trashed or not) and raises \<open>DoesNotExist\<close> when there is none; the
  row fetched is true, and its uuid is the key.
\<close>

definition deref :: "string list \<Rightarrow> string option \<Rightarrow> exn + string option" where
  "deref uuids key =
     (case key of
        None \<Rightarrow> Inr None
      | Some k \<Rightarrow> (if k \<in> set uuids then Inr (Some k) else Inl DoesNotExist))"

text \<open>
  A list built row by row by an expression that may raise: the first exception ends the
  loop and is the outcome of the whole.
\<close>

fun collect :: "('a \<Rightarrow> exn + 'b) \<Rightarrow> 'a list \<Rightarrow> exn + 'b list" where
  "collect f [] = Inr []"
| "collect f (x # xs) =
     (case f x of
        Inl e \<Rightarrow> Inl e
      | Inr y \<Rightarrow> (case collect f xs of Inl e \<Rightarrow> Inl e | Inr ys \<Rightarrow> Inr (y # ys)))"

definition get_projects :: "ThingsReader \<Rightarrow> exn + project_dict list" where
  "get_projects r =
     collect (\<lambda>project.
         case deref (map TMArea_uuid (areas_table r)) (TMTask_area project) of
           Inl e \<Rightarrow> Inl e
         | Inr area_uuid \<Rightarrow>
             Inr \<lparr>pd_uuid = TMTask_uuid project, pd_title = TMTask_title project,
                  pd_notes = TMTask_notes project, pd_area_uuid = area_uuid\<rparr>)
       (filter (\<lambda>t. TMTask_type t = 1 \<and> TMTask_trashed t = 0) (tasks_table r))"

definition get_tasks :: "ThingsReader \<Rightarrow> exn + task_dict list" where
  "get_tasks r =
     collect (\<lambda>task.
         case deref (map TMTask_uuid (tasks_table r)) (TMTask_project task) of
           Inl e \<Rightarrow> Inl e
         | Inr project_uuid \<Rightarrow>
             (case deref (map TMArea_uuid (areas_table r)) (TMTask_area task) of
                Inl e \<Rightarrow> Inl e
              | Inr area_uuid \<Rightarrow>
                  (case deref (map TMTask_uuid (tasks_table r)) (TMTask_heading task) of
                     Inl e \<Rightarrow> Inl e
                   | Inr heading_uuid \<Rightarrow>
                       Inr \<lparr>td_uuid = TMTask_uuid task, td_title = TMTask_title task,
                            td_notes = TMTask_notes task, td_status = TMTask_status task,
                            td_due_date = TMTask_dueDate task, td_project_uuid = project_uuid,
                            td_area_uuid = area_uuid, td_heading_uuid = heading_uuid\<rparr>)))
       (filter (\<lambda>t. TMTask_type t = 0 \<and> TMTask_trashed t = 0) (tasks_table r))"

text \<open>
  The three accessors below compare the key columns with the uuid they are given and read
  no attribute of a foreign key, so they follow no key and raise nothing.
\<close>

definition get_headings_for_project :: "ThingsReader \<Rightarrow> string \<Rightarrow> heading_dict list" where
  "get_headings_for_project r project_uuid =
     map (\<lambda>heading. \<lparr>hd_uuid = TMTask_uuid heading, hd_title = TMTask_title heading\<rparr>)
       (filter (\<lambda>t. TMTask_type t = 2 \<and> TMTask_trashed t = 0 \<and>
                     TMTask_project t = Some project_uuid) (tasks_table r))"

definition subtask_of :: "TMTask \<Rightarrow> subtask_dict" where
  "subtask_of task =
     \<lparr>sd_uuid = TMTask_uuid task, sd_title = TMTask_title task, sd_notes = TMTask_notes task,
      sd_status = TMTask_status task, sd_due_date = TMTask_dueDate task\<rparr>"

definition get_tasks_for_project :: "ThingsReader \<Rightarrow> string \<Rightarrow> subtask_dict list" where
  "get_tasks_for_project r project_uuid =
     map subtask_of
       (filter (\<lambda>t. TMTask_type t = 0 \<and> TMTask_trashed t = 0 \<and>
                     TMTask_project t = Some project_uuid \<and> TMTask_heading t = None)
          (tasks_table r))"

definition get_tasks_for_heading :: "ThingsReader \<Rightarrow> string \<Rightarrow> subtask_dict list" where
  "get_tasks_for_heading r heading_uuid =
     map subtask_of
       (filter (\<lambda>t. TMTask_type t = 0 \<and> TMTask_trashed t = 0 \<and>
                     TMTask_heading t = Some heading_uuid) (tasks_table r))"

section \<open>google_tasks_client.py\<close>

subsection \<open>The remote service\<close>

text \<open>
  The client talks to a remote account through the service object of the API library.
  The account is modelled as the task lists and tasks it holds, in the order in which a
  list request yields them. A list is a dictionary with an id and a title, a task a
  dictionary with an id, the fields of the request body, its parent and the list it is in.
  The answer to an insertion is taken to hold the keys the driver reads from it,
  \<open>id\<close> and \<open>title\<close>.
\<close>

record tasklist =
  tl_id :: string
  tl_title :: "string option"

record remote_task =
  rt_id :: string
  rt_title :: "string option"
  rt_notes :: "string option"
  rt_due :: "string option"
  rt_parent :: "string option"
  rt_tasklist :: string

text \<open>
  The body of a task insertion: \<open>title\<close> is always a key of the dictionary,
  \<open>notes\<close> and \<open>due\<close> are keys only when the field is \<open>Some\<close>.
\<close>

record task_body =
  tb_title :: "string option"
  tb_notes :: "string option"
  tb_due :: "string option"

text \<open>
  The client object together with the account behind it. Every \<open>execute()\<close> of a
  request takes the next entry of \<open>script\<close>: \<open>None\<close> lets the request
  succeed, \<open>Some e\<close> makes it raise \<open>e\<close>; when the script is used up every
  request succeeds. \<open>counter\<close> numbers the objects the account creates, and
  \<open>printed\<close> holds the due-date warnings the client has printed (its other messages
  are not modelled).
\<close>

record GoogleTasksClient =
  tasklists :: "tasklist list"
  tasks :: "remote_task list"
  counter :: nat
  script :: "exn option list"
  printed :: "string list"

definition fresh_id :: "nat \<Rightarrow> string" where
  "fresh_id n = CHR ''g'' # replicate n (CHR ''x'')"

definition execute :: "GoogleTasksClient \<Rightarrow> exn option \<times> GoogleTasksClient" where
  "execute c = (case script c of [] \<Rightarrow> (None, c) | x # xs \<Rightarrow> (x, c\<lparr>script := xs\<rparr>))"

definition tasklists_list :: "GoogleTasksClient \<Rightarrow> (exn + tasklist list) \<times> GoogleTasksClient" where
  "tasklists_list c =
     (case execute c of
        (Some e, c') \<Rightarrow> (Inl e, c')
      | (None, c') \<Rightarrow> (Inr (tasklists c'), c'))"

definition tasklists_insert ::
  "GoogleTasksClient \<Rightarrow> string option \<Rightarrow> (exn + tasklist) \<times> GoogleTasksClient" where
  "tasklists_insert c title =
     (case execute c of
        (Some e, c') \<Rightarrow> (Inl e, c')
      | (None, c') \<Rightarrow>
          (let created_list = \<lparr>tl_id = fresh_id (counter c'), tl_title = title\<rparr>
           in (Inr created_list,
               c'\<lparr>tasklists := tasklists c' @ [created_list], counter := Suc (counter c')\<rparr>)))"

definition tasklists_delete ::
  "GoogleTasksClient \<Rightarrow> string \<Rightarrow> (exn + unit) \<times> GoogleTasksClient" where
  "tasklists_delete c task_list_id =
     (case execute c of
        (Some e, c') \<Rightarrow> (Inl e, c')
      | (None, c') \<Rightarrow>
          (if task_list_id \<in> tl_id ` set (tasklists c')
           then (Inr (), c'\<lparr>tasklists := filter (\<lambda>l. tl_id l \<noteq> task_list_id) (tasklists c'),
                            tasks := filter (\<lambda>t. rt_tasklist t \<noteq> task_list_id) (tasks c')\<rparr>)
           else (Inl (HttpError 404), c')))"

definition tasks_insert ::
  "GoogleTasksClient \<Rightarrow> string \<Rightarrow> task_body \<Rightarrow> string option \<Rightarrow>
     (exn + remote_task) \<times> GoogleTasksClient" where
  "tasks_insert c task_list_id body parent =
     (case execute c of
        (Some e, c') \<Rightarrow> (Inl e, c')
      | (None, c') \<Rightarrow>
          (let created_task =
                 \<lparr>rt_id = fresh_id (counter c'), rt_title = tb_title body,
                  rt_notes = tb_notes body, rt_due = tb_due body, rt_parent = parent,
                  rt_tasklist = task_list_id\<rparr>
           in (Inr created_task,
               c'\<lparr>tasks := tasks c' @ [created_task], counter := Suc (counter c')\<rparr>)))"

definition tasks_list ::
  "GoogleTasksClient \<Rightarrow> string \<Rightarrow> (exn + remote_task list) \<times> GoogleTasksClient" where
  "tasks_list c task_list_id =
     (case execute c of
        (Some e, c') \<Rightarrow> (Inl e, c')
      | (None, c') \<Rightarrow> (Inr (filter (\<lambda>t. rt_tasklist t = task_list_id) (tasks c')), c'))"

subsection \<open>Due dates\<close>

text \<open>
  \<open>datetime.strptime(s, '%Y-%m-%d')\<close> on ASCII text. The format is a regular
  expression matched at the start of the text: four digits, a hyphen, the month as
  \<open>1[0-2]|0[1-9]|[1-9]\<close>, a hyphen, the day as
  \<open>3[01]|[12]\d|0[1-9]|[1-9]| [1-9]\<close>, the alternatives tried in this order. Text
  left after the match, a year 0 and a day the month does not have raise
  \<open>ValueError\<close>, here \<open>None\<close>.
\<close>

definition is_digit :: "char \<Rightarrow> bool" where
  "is_digit ch = (ch \<in> set ''0123456789'')"

definition digit_val :: "char \<Rightarrow> nat" where
  "digit_val ch = of_char ch - of_char (CHR ''0'')"

definition month_alts :: "string \<Rightarrow> (nat \<times> string) list" where
  "month_alts s =
     (case s of
        a # b # rest \<Rightarrow>
          (if a = CHR ''1'' \<and> b \<in> set ''012'' then [(10 + digit_val b, rest)] else []) @
          (if a = CHR ''0'' \<and> b \<in> set ''123456789'' then [(digit_val b, rest)] else [])
      | _ \<Rightarrow> []) @
     (case s of
        a # rest \<Rightarrow> (if a \<in> set ''123456789'' then [(digit_val a, rest)] else [])
      | _ \<Rightarrow> [])"

definition day_alts :: "string \<Rightarrow> (nat \<times> string) list" where
  "day_alts s =
     (case s of
        a # b # rest \<Rightarrow>
          (if a = CHR ''3'' \<and> b \<in> set ''01'' then [(30 + digit_val b, rest)] else []) @
          (if a \<in> set ''12'' \<and> is_digit b then [(10 * digit_val a + digit_val b, rest)] else []) @
          (if a = CHR ''0'' \<and> b \<in> set ''123456789'' then [(digit_val b, rest)] else [])
      | _ \<Rightarrow> []) @
     (case s of
        a # rest \<Rightarrow> (if a \<in> set ''123456789'' then [(digit_val a, rest)] else [])
      | _ \<Rightarrow> []) @
     (case s of
        a # b # rest \<Rightarrow>
          (if a = CHR '' '' \<and> b \<in> set ''123456789'' then [(digit_val b, rest)] else [])
      | _ \<Rightarrow> [])"

text \<open>
  The match of the whole expression: the first choice of alternatives, in the order of a
  backtracking matcher, after which the rest of the expression matches. The result is the
  year, month and day and the text left over.
\<close>

definition regex_match :: "string \<Rightarrow> (nat \<times> nat \<times> nat \<times> string) option" where
  "regex_match s =
     (case s of
        y1 # y2 # y3 # y4 # h # rest \<Rightarrow>
          (if is_digit y1 \<and> is_digit y2 \<and> is_digit y3 \<and> is_digit y4 \<and> h = CHR ''-''
           then (case concat (map (\<lambda>(m, r). case r of
                                       h' # r' \<Rightarrow> (if h' = CHR ''-''
                                                    then map (\<lambda>(d, r''). (m, d, r'')) (day_alts r')
                                                    else [])
                                     | [] \<Rightarrow> [])
                               (month_alts rest)) of
                   [] \<Rightarrow> None
                 | (m, d, r) # _ \<Rightarrow>
                     Some (1000 * digit_val y1 + 100 * digit_val y2 + 10 * digit_val y3 + digit_val y4,
                           m, d, r))
           else None)
      | _ \<Rightarrow> None)"

definition is_leap :: "nat \<Rightarrow> bool" where
  "is_leap y = (y mod 4 = 0 \<and> (y mod 100 \<noteq> 0 \<or> y mod 400 = 0))"

definition days_in_month :: "nat \<Rightarrow> nat \<Rightarrow> nat" where
  "days_in_month y m =
     (if m = 2 then (if is_leap y then 29 else 28)
      else if m \<in> {4, 6, 9, 11} then 30 else 31)"

definition strptime :: "string \<Rightarrow> (nat \<times> nat \<times> nat) option" where
  "strptime s =
     (case regex_match s of
        None \<Rightarrow> None
      | Some (y, m, d, rest) \<Rightarrow>
          (if rest \<noteq> [] then None
           else if y < 1 \<or> days_in_month y m < d then None
           else Some (y, m, d)))"

text \<open>\<open>dt.isoformat()\<close> of a date at midnight: \<open>YYYY-MM-DDT00:00:00\<close>.\<close>

definition digit_char :: "nat \<Rightarrow> char" where
  "digit_char n = ''0123456789'' ! (n mod 10)"

definition pad2 :: "nat \<Rightarrow> string" where
  "pad2 n = [digit_char (n div 10), digit_char n]"

definition pad4 :: "nat \<Rightarrow> string" where
  "pad4 n = [digit_char (n div 1000), digit_char (n div 100), digit_char (n div 10), digit_char n]"

definition isoformat :: "nat \<times> nat \<times> nat \<Rightarrow> string" where
  "isoformat dt = (case dt of (y, m, d) \<Rightarrow> pad4 y @ ''-'' @ pad2 m @ ''-'' @ pad2 d @ ''T00:00:00'')"

subsection \<open>The methods of the client\<close>

definition get_task_lists :: "GoogleTasksClient \<Rightarrow> (exn + tasklist list) \<times> GoogleTasksClient" where
  "get_task_lists c =
     (case tasklists_list c of
        (Inr results, c') \<Rightarrow> (Inr results, c')
      | (Inl (HttpError err), c') \<Rightarrow> (Inr [], c')
      | (Inl e, c') \<Rightarrow> (Inl e, c'))"

text \<open>The loop of \<open>get_task_list_by_title\<close>, which returns at the first match.\<close>

fun first_titled :: "string option \<Rightarrow> tasklist list \<Rightarrow> tasklist option" where
  "first_titled title [] = None"
| "first_titled title (task_list # task_lists) =
     (if tl_title task_list = title then Some task_list else first_titled title task_lists)"

definition get_task_list_by_title ::
  "GoogleTasksClient \<Rightarrow> string option \<Rightarrow> (exn + tasklist option) \<times> GoogleTasksClient" where
  "get_task_list_by_title c title =
     (case get_task_lists c of
        (Inl e, c') \<Rightarrow> (Inl e, c')
      | (Inr task_lists, c') \<Rightarrow> (Inr (first_titled title task_lists), c'))"

definition create_task_list ::
  "GoogleTasksClient \<Rightarrow> string option \<Rightarrow> (exn + tasklist option) \<times> GoogleTasksClient" where
  "create_task_list c title =
     (case tasklists_insert c title of
        (Inr created_list, c') \<Rightarrow> (Inr (Some created_list), c')
      | (Inl (HttpError err), c') \<Rightarrow> (Inr None, c')
      | (Inl e, c') \<Rightarrow> (Inl e, c'))"

definition delete_task_list ::
  "GoogleTasksClient \<Rightarrow> string \<Rightarrow> (exn + unit) \<times> GoogleTasksClient" where
  "delete_task_list c task_list_id =
     (case tasklists_delete c task_list_id of
        (Inr u, c') \<Rightarrow> (Inr (), c')
      | (Inl (HttpError err), c') \<Rightarrow> (Inr (), c')
      | (Inl e, c') \<Rightarrow> (Inl e, c'))"

fun delete_each :: "tasklist list \<Rightarrow> GoogleTasksClient \<Rightarrow> (exn + unit) \<times> GoogleTasksClient" where
  "delete_each [] c = (Inr (), c)"
| "delete_each (task_list # task_lists) c =
     (case delete_task_list c (tl_id task_list) of
        (Inr u, c') \<Rightarrow> delete_each task_lists c'
      | (Inl (HttpError err), c') \<Rightarrow> delete_each task_lists c'
      | (Inl e, c') \<Rightarrow> (Inl e, c'))"

definition clear_all_task_lists_and_tasks ::
  "GoogleTasksClient \<Rightarrow> (exn + unit) \<times> GoogleTasksClient" where
  "clear_all_task_lists_and_tasks c =
     (case get_task_lists c of
        (Inl e, c') \<Rightarrow> (Inl e, c')
      | (Inr task_lists, c') \<Rightarrow>
          (if task_lists = [] then (Inr (), c') else delete_each task_lists c'))"

text \<open>
  The first half of \<open>create_task\<close> for a due date that is a \<open>str\<close> or
  \<open>None\<close>: the request body, and the warning printed when the due date does not
  parse.
\<close>

definition invalid_due_date_warning :: "string \<Rightarrow> string" where
  "invalid_due_date_warning due_date_str =
     ''Warning: Invalid due date format '' @ [CHR 0x27] @ due_date_str @ [CHR 0x27] @
     ''. Please use YYYY-MM-DD. Task will be created without a due date.''"

definition make_task_body ::
  "string option \<Rightarrow> string option \<Rightarrow> string option \<Rightarrow> task_body \<times> string list" where
  "make_task_body title notes due_date_str =
     (let task_body = \<lparr>tb_title = title, tb_notes = None, tb_due = None\<rparr>;
          task_body = (if truthy notes then task_body\<lparr>tb_notes := notes\<rparr> else task_body)
      in case due_date_str of
           None \<Rightarrow> (task_body, [])
         | Some s \<Rightarrow>
             (if s = [] then (task_body, [])
              else (case strptime s of
                      Some dt \<Rightarrow> (task_body\<lparr>tb_due := Some (isoformat dt @ ''Z'')\<rparr>, [])
                    | None \<Rightarrow> (task_body, [invalid_due_date_warning s]))))"

text \<open>
  The due date by the type of its value: the driver passes whatever the reader gave it.
  A \<open>str\<close> and \<open>None\<close> go on as they are. A value of another type that
  is false skips the date branch like \<open>None\<close>; one that is true reaches
  \<open>strptime\<close>, which raises \<open>TypeError\<close> on it, and the
  \<open>except ValueError\<close> around the call does not catch that.
\<close>

definition due_text :: "date_value option \<Rightarrow> exn + string option" where
  "due_text due_date_str =
     (case due_date_str of
        None \<Rightarrow> Inr None
      | Some (Str s) \<Rightarrow> Inr (Some s)
      | Some v \<Rightarrow> (if truthy_value (Some v) then Inl TypeError else Inr None))"

text \<open>
  \<open>create_task\<close>. The \<open>TypeError\<close> is raised before the request is made
  and outside the \<open>try\<close> around the request: it leaves the method with the client
  as it was.
\<close>

definition create_task ::
  "GoogleTasksClient \<Rightarrow> string \<Rightarrow> string option \<Rightarrow> string option \<Rightarrow> date_value option \<Rightarrow>
     string option \<Rightarrow> (exn + remote_task option) \<times> GoogleTasksClient" where
  "create_task c task_list_id title notes due_date_str parent_task_id =
     (case due_text due_date_str of
        Inl e \<Rightarrow> (Inl e, c)
      | Inr due \<Rightarrow>
          (case make_task_body title notes due of
             (task_body, warnings) \<Rightarrow>
               (let c = c\<lparr>printed := printed c @ warnings\<rparr>
                in case (if truthy parent_task_id
                         then tasks_insert c task_list_id task_body parent_task_id
                         else tasks_insert c task_list_id task_body None) of
                     (Inr created_task, c') \<Rightarrow> (Inr (Some created_task), c')
                   | (Inl (HttpError err), c') \<Rightarrow> (Inr None, c')
                   | (Inl e, c') \<Rightarrow> (Inl e, c'))))"

definition get_tasks_in_list ::
  "GoogleTasksClient \<Rightarrow> string \<Rightarrow> (exn + remote_task list) \<times> GoogleTasksClient" where
  "get_tasks_in_list c task_list_id =
     (case tasks_list c task_list_id of
        (Inr results, c') \<Rightarrow> (Inr results, c')
      | (Inl (HttpError err), c') \<Rightarrow> (Inr [], c')
      | (Inl e, c') \<Rightarrow> (Inl e, c'))"

section \<open>things_to_google_tasks.py\<close>

text \<open>
  A \<open>for\<close> loop whose body may raise: the body is run on each element in turn, on the
  state the previous iteration left, and the loop stops at the first exception.
\<close>

fun for_each :: "('a \<Rightarrow> 's \<Rightarrow> exn option \<times> 's) \<Rightarrow> 'a list \<Rightarrow> 's \<Rightarrow> exn option \<times> 's" where
  "for_each body [] s = (None, s)"
| "for_each body (x # xs) s =
     (case body x s of
        (None, s') \<Rightarrow> for_each body xs s'
      | (Some e, s') \<Rightarrow> (Some e, s'))"

text \<open>
  The transcript of a run. Each entry stands for a message the driver prints at that
  point, kept as a value: the place in the driver, the uuid of the source item the loop is
  at and the object the client returned. \<open>DefaultList\<close> records the value a call of
  \<open>get_or_create_default_list\<close> returns.
\<close>

datatype site = ProjectTask | HeadingTask | TaskUnderHeading | DirectTask | StandaloneTask

datatype event =
    FoundList string tasklist
  | CreatedList string tasklist
  | FailedList string
  | FoundDefault tasklist
  | CreatedDefault tasklist
  | FailedDefault
  | DefaultList "tasklist option"
  | Skipped site string
  | Created site string remote_task
  | Failed site string

text \<open>The variables of \<open>main\<close> that the three steps share.\<close>

record migration =
  google_tasks_client :: GoogleTasksClient
  google_task_lists_cache :: "string \<rightharpoonup> tasklist"
  default_google_list_cache :: "tasklist option"
  migrated_project_task_ids :: "string set"
  events :: "event list"

subsection \<open>Step 1: areas\<close>

definition migrate_area :: "area_dict \<Rightarrow> migration \<Rightarrow> exn option \<times> migration" where
  "migrate_area area s =
     (let area_title = ad_title area; area_uuid = ad_uuid area
      in case get_task_list_by_title (google_tasks_client s) area_title of
           (Inl e, c) \<Rightarrow> (Some e, s\<lparr>google_tasks_client := c\<rparr>)
         | (Inr (Some existing_list), c) \<Rightarrow>
             (None, s\<lparr>google_tasks_client := c,
                      google_task_lists_cache := (google_task_lists_cache s)
                        (area_uuid \<mapsto> \<lparr>tl_id = tl_id existing_list, tl_title = tl_title existing_list\<rparr>),
                      events := events s @ [FoundList area_uuid existing_list]\<rparr>)
         | (Inr None, c) \<Rightarrow>
             (case create_task_list c area_title of
                (Inl e, c') \<Rightarrow> (Some e, s\<lparr>google_tasks_client := c'\<rparr>)
              | (Inr (Some new_list), c') \<Rightarrow>
                  (None, s\<lparr>google_tasks_client := c',
                           google_task_lists_cache := (google_task_lists_cache s)
                             (area_uuid \<mapsto> \<lparr>tl_id = tl_id new_list, tl_title = tl_title new_list\<rparr>),
                           events := events s @ [CreatedList area_uuid new_list]\<rparr>)
              | (Inr None, c') \<Rightarrow>
                  (None, s\<lparr>google_tasks_client := c',
                           events := events s @ [FailedList area_uuid]\<rparr>)))"

text \<open>The \<open>try\<close> around the step catches every exception; the run goes on with step 2.\<close>

definition migrate_areas :: "ThingsReader \<Rightarrow> migration \<Rightarrow> migration" where
  "migrate_areas r s = snd (for_each migrate_area (get_areas r) s)"

subsection \<open>The default list\<close>

definition DEFAULT_LIST_TITLE :: string where
  "DEFAULT_LIST_TITLE = ''Things Imported Tasks''"

definition get_or_create_default_list :: "migration \<Rightarrow> (exn + tasklist option) \<times> migration" where
  "get_or_create_default_list s =
     (case default_google_list_cache s of
        Some cached \<Rightarrow> (Inr (Some cached), s\<lparr>events := events s @ [DefaultList (Some cached)]\<rparr>)
      | None \<Rightarrow>
          (case get_task_list_by_title (google_tasks_client s) (Some DEFAULT_LIST_TITLE) of
             (Inl e, c) \<Rightarrow> (Inl e, s\<lparr>google_tasks_client := c\<rparr>)
           | (Inr (Some existing_default), c) \<Rightarrow>
               (Inr (Some existing_default),
                s\<lparr>google_tasks_client := c, default_google_list_cache := Some existing_default,
                  events := events s @ [FoundDefault existing_default,
                                        DefaultList (Some existing_default)]\<rparr>)
           | (Inr None, c) \<Rightarrow>
               (case create_task_list c (Some DEFAULT_LIST_TITLE) of
                  (Inl e, c') \<Rightarrow> (Inl e, s\<lparr>google_tasks_client := c'\<rparr>)
                | (Inr (Some created_default), c') \<Rightarrow>
                    (Inr (Some created_default),
                     s\<lparr>google_tasks_client := c', default_google_list_cache := Some created_default,
                       events := events s @ [CreatedDefault created_default,
                                             DefaultList (Some created_default)]\<rparr>)
                | (Inr None, c') \<Rightarrow>
                    (Inr None,
                     s\<lparr>google_tasks_client := c',
                       events := events s @ [FailedDefault, DefaultList None]\<rparr>))))"

text \<open>
  \<open>area_uuid and area_uuid in google_task_lists_cache\<close>, and the entry of the cache
  when the test holds.
\<close>

definition cached_list :: "migration \<Rightarrow> string option \<Rightarrow> tasklist option" where
  "cached_list s area_uuid =
     (case area_uuid of
        None \<Rightarrow> None
      | Some a \<Rightarrow> (if a = [] then None else google_task_lists_cache s a))"

subsection \<open>Step 2: projects, headings and their tasks\<close>

text \<open>
  One call of \<open>create_task\<close> for a source item and what the driver does with its
  result: on success the item is marked (in step 2) and the creation recorded, on a
  failed result the failure is recorded, and an exception leaves the loop.
\<close>

definition migrate_subtask ::
  "site \<Rightarrow> string \<Rightarrow> remote_task \<Rightarrow> subtask_dict \<Rightarrow> migration \<Rightarrow> exn option \<times> migration" where
  "migrate_subtask here target_list_id g_parent task s =
     (let task_title = sd_title task; task_uuid = sd_uuid task
      in case create_task (google_tasks_client s) target_list_id task_title (sd_notes task)
                (sd_due_date task) (Some (rt_id g_parent)) of
           (Inl e, c) \<Rightarrow> (Some e, s\<lparr>google_tasks_client := c\<rparr>)
         | (Inr (Some g_task), c) \<Rightarrow>
             (None, s\<lparr>google_tasks_client := c,
                      migrated_project_task_ids := insert task_uuid (migrated_project_task_ids s),
                      events := events s @ [Created here task_uuid g_task]\<rparr>)
         | (Inr None, c) \<Rightarrow>
             (None, s\<lparr>google_tasks_client := c, events := events s @ [Failed here task_uuid]\<rparr>))"

definition migrate_heading ::
  "ThingsReader \<Rightarrow> string \<Rightarrow> remote_task \<Rightarrow> heading_dict \<Rightarrow> migration \<Rightarrow>
     exn option \<times> migration" where
  "migrate_heading r target_list_id g_project_task heading s =
     (let heading_title = hd_title heading; heading_uuid = hd_uuid heading;
          g_heading_task_title = ''--- '' @ fmt heading_title @ '' ---''
      in case create_task (google_tasks_client s) target_list_id (Some g_heading_task_title)
                None None (Some (rt_id g_project_task)) of
           (Inl e, c) \<Rightarrow> (Some e, s\<lparr>google_tasks_client := c\<rparr>)
         | (Inr None, c) \<Rightarrow>
             (None, s\<lparr>google_tasks_client := c,
                      events := events s @ [Failed HeadingTask heading_uuid]\<rparr>)
         | (Inr (Some g_heading_task), c) \<Rightarrow>
             for_each (migrate_subtask TaskUnderHeading target_list_id g_heading_task)
               (get_tasks_for_heading r heading_uuid)
               (s\<lparr>google_tasks_client := c,
                  migrated_project_task_ids := insert heading_uuid (migrated_project_task_ids s),
                  events := events s @ [Created HeadingTask heading_uuid g_heading_task]\<rparr>))"

text \<open>The body of the project loop from the point where the target list is known.\<close>

definition migrate_project_into ::
  "ThingsReader \<Rightarrow> project_dict \<Rightarrow> tasklist \<Rightarrow> migration \<Rightarrow> exn option \<times> migration" where
  "migrate_project_into r project target_list_info s =
     (let project_title = pd_title project; project_uuid = pd_uuid project;
          project_notes = pd_notes project;
          target_list_id = tl_id target_list_info;
          project_main_task_title = fmt project_title
      in case create_task (google_tasks_client s) target_list_id (Some project_main_task_title)
                project_notes None None of
           (Inl e, c) \<Rightarrow> (Some e, s\<lparr>google_tasks_client := c\<rparr>)
         | (Inr None, c) \<Rightarrow>
             (None, s\<lparr>google_tasks_client := c,
                      events := events s @ [Failed ProjectTask project_uuid]\<rparr>)
         | (Inr (Some g_project_task), c) \<Rightarrow>
             (case for_each (migrate_heading r target_list_id g_project_task)
                     (get_headings_for_project r project_uuid)
                     (s\<lparr>google_tasks_client := c,
                        migrated_project_task_ids := insert project_uuid (migrated_project_task_ids s),
                        events := events s @ [Created ProjectTask project_uuid g_project_task]\<rparr>) of
                (Some e, s') \<Rightarrow> (Some e, s')
              | (None, s') \<Rightarrow>
                  for_each (migrate_subtask DirectTask target_list_id g_project_task)
                    (get_tasks_for_project r project_uuid) s'))"

definition migrate_project ::
  "ThingsReader \<Rightarrow> project_dict \<Rightarrow> migration \<Rightarrow> exn option \<times> migration" where
  "migrate_project r project s =
     (case cached_list s (pd_area_uuid project) of
        Some target_list_info \<Rightarrow> migrate_project_into r project target_list_info s
      | None \<Rightarrow>
          (case get_or_create_default_list s of
             (Inl e, s') \<Rightarrow> (Some e, s')
           | (Inr None, s') \<Rightarrow>
               (None, s'\<lparr>events := events s' @ [Skipped ProjectTask (pd_uuid project)]\<rparr>)
           | (Inr (Some target_list_info), s') \<Rightarrow>
               migrate_project_into r project target_list_info s'))"

text \<open>
  Step 2. An exception of \<open>get_projects\<close> is raised inside the \<open>try\<close>
  of the step, before the loop: the step is over and nothing has changed. An exception in
  the loop ends the step with what the loop has done so far.
\<close>

definition migrate_projects :: "ThingsReader \<Rightarrow> migration \<Rightarrow> migration" where
  "migrate_projects r s =
     (case get_projects r of
        Inl e \<Rightarrow> s
      | Inr projects \<Rightarrow> snd (for_each (migrate_project r) projects s))"

subsection \<open>Step 3: standalone tasks\<close>

definition create_standalone_task ::
  "task_dict \<Rightarrow> tasklist \<Rightarrow> migration \<Rightarrow> exn option \<times> migration" where
  "create_standalone_task task target_list_info s =
     (let task_title = td_title task; task_uuid = td_uuid task;
          target_list_id = tl_id target_list_info
      in case create_task (google_tasks_client s) target_list_id task_title (td_notes task)
                (td_due_date task) None of
           (Inl e, c) \<Rightarrow> (Some e, s\<lparr>google_tasks_client := c\<rparr>)
         | (Inr (Some g_task), c) \<Rightarrow>
             (None, s\<lparr>google_tasks_client := c,
                      events := events s @ [Created StandaloneTask task_uuid g_task]\<rparr>)
         | (Inr None, c) \<Rightarrow>
             (None, s\<lparr>google_tasks_client := c,
                      events := events s @ [Failed StandaloneTask task_uuid]\<rparr>))"

definition migrate_standalone_task :: "task_dict \<Rightarrow> migration \<Rightarrow> exn option \<times> migration" where
  "migrate_standalone_task task s =
     (case cached_list s (td_area_uuid task) of
        Some target_list_info \<Rightarrow> create_standalone_task task target_list_info s
      | None \<Rightarrow>
          (case get_or_create_default_list s of
             (Inl e, s') \<Rightarrow> (Some e, s')
           | (Inr None, s') \<Rightarrow>
               (None, s'\<lparr>events := events s' @ [Skipped StandaloneTask (td_uuid task)]\<rparr>)
           | (Inr (Some target_list_info), s') \<Rightarrow>
               create_standalone_task task target_list_info s'))"

definition standalone_tasks_to_migrate :: "task_dict list \<Rightarrow> migration \<Rightarrow> task_dict list" where
  "standalone_tasks_to_migrate all_things_tasks s =
     filter (\<lambda>task. td_uuid task \<notin> migrated_project_task_ids s \<and> \<not> truthy (td_project_uuid task))
       all_things_tasks"

definition migrate_standalone_tasks :: "ThingsReader \<Rightarrow> migration \<Rightarrow> migration" where
  "migrate_standalone_tasks r s =
     (case get_tasks r of
        Inl e \<Rightarrow> s
      | Inr all_things_tasks \<Rightarrow>
          snd (for_each migrate_standalone_task (standalone_tasks_to_migrate all_things_tasks s) s))"

subsection \<open>The run\<close>

definition start :: "GoogleTasksClient \<Rightarrow> migration" where
  "start c =
     \<lparr>google_tasks_client = c, google_task_lists_cache = Map.empty,
      default_google_list_cache = None, migrated_project_task_ids = {}, events = []\<rparr>"

definition migration_process :: "ThingsReader \<Rightarrow> GoogleTasksClient \<Rightarrow> migration" where
  "migration_process r c =
     migrate_standalone_tasks r (migrate_projects r (migrate_areas r (start c)))"

text \<open>\<open>str.lower()\<close> on ASCII text.\<close>

definition lower_char :: "char \<Rightarrow> char" where
  "lower_char ch =
     (case map_of (zip ''ABCDEFGHIJKLMNOPQRSTUVWXYZ'' ''abcdefghijklmnopqrstuvwxyz'') ch of
        Some l \<Rightarrow> l
      | None \<Rightarrow> ch)"

definition lower :: "string \<Rightarrow> string" where
  "lower text = map lower_char text"

text \<open>
  \<open>main\<close> from the clean-slate question on, with the reader and the client already
  constructed: \<open>clean_slate\<close> is the command-line flag and \<open>confirm\<close> the line the
  user types when asked. The result is the exit status of the process, the reader and the
  client with the account behind it. What precedes this part of \<open>main\<close> (parsing
  the arguments, resolving and checking the paths, constructing the reader and the client)
  makes no request to the service and is left out.
\<close>

definition main ::
  "bool \<Rightarrow> string \<Rightarrow> ThingsReader \<Rightarrow> GoogleTasksClient \<Rightarrow> int \<times> ThingsReader \<times> GoogleTasksClient" where
  "main clean_slate confirm things_reader client =
     (if clean_slate
      then (if lower confirm = ''y''
            then (case clear_all_task_lists_and_tasks client of
                    (Inl e, c) \<Rightarrow> (1, close things_reader, c)
                  | (Inr u, c) \<Rightarrow>
                      (0, close things_reader,
                       google_tasks_client (migration_process things_reader c)))
            else (0, close things_reader, client))
      else (0, close things_reader,
            google_tasks_client (migration_process things_reader client)))"

section \<open>Statements about a run\<close>

text \<open>
  \<open>marks u ts e\<close>: the entry \<open>e\<close> of the transcript records that step 2 created
  for the source item \<open>u\<close> a task that is among the tasks \<open>ts\<close>. The placed set
  is sound when each of its members has such an entry for a task of the account.
\<close>

fun marks :: "string \<Rightarrow> remote_task list \<Rightarrow> event \<Rightarrow> bool" where
  "marks u ts (Created here v g) = (here \<noteq> StandaloneTask \<and> v = u \<and> g \<in> set ts)"
| "marks u ts _ = False"

definition placed_sound :: "migration \<Rightarrow> bool" where
  "placed_sound s =
     (\<forall>u \<in> migrated_project_task_ids s.
        \<exists>e \<in> set (events s). marks u (tasks (google_tasks_client s)) e)"

text \<open>
  What the transcript says about the default list: the lists found or created for it
  (\<open>default_lookups\<close>), the lists created for it (\<open>default_created\<close>) and the
  lists that calls of \<open>get_or_create_default_list\<close> returned
  (\<open>default_returns\<close>). \<open>default_inv\<close> relates them to the memoized value:
  while the cache is empty nothing was found, created or returned; once it holds a list,
  that list is the only one found or created and the only one returned.
\<close>

fun lookup_of :: "event \<Rightarrow> tasklist list" where
  "lookup_of (FoundDefault d) = [d]"
| "lookup_of (CreatedDefault d) = [d]"
| "lookup_of _ = []"

fun creation_of :: "event \<Rightarrow> tasklist list" where
  "creation_of (CreatedDefault d) = [d]"
| "creation_of _ = []"

fun return_of :: "event \<Rightarrow> tasklist list" where
  "return_of (DefaultList (Some d)) = [d]"
| "return_of _ = []"

definition default_lookups :: "event list \<Rightarrow> tasklist list" where
  "default_lookups evs = concat (map lookup_of evs)"

definition default_created :: "event list \<Rightarrow> tasklist list" where
  "default_created evs = concat (map creation_of evs)"

definition default_returns :: "event list \<Rightarrow> tasklist list" where
  "default_returns evs = concat (map return_of evs)"

definition default_inv :: "migration \<Rightarrow> bool" where
  "default_inv s =
     (case default_google_list_cache s of
        None \<Rightarrow> default_lookups (events s) = [] \<and> default_returns (events s) = []
      | Some d \<Rightarrow> default_lookups (events s) = [d] \<and> default_returns (events s) \<noteq> [] \<and>
                  (\<forall>x \<in> set (default_returns (events s)). x = d))"

text \<open>A part of the run that neither reads nor writes the default list.\<close>

definition default_untouched :: "migration \<Rightarrow> migration \<Rightarrow> bool" where
  "default_untouched s s' =
     (default_google_list_cache s' = default_google_list_cache s \<and>
      default_lookups (events s') = default_lookups (events s) \<and>
      default_returns (events s') = default_returns (events s))"




text \<open>
  The uuids of the source items for which the transcript records a created task, in the
  order of creation; the number of tasks created for \<open>u\<close> is the number of times
  \<open>u\<close> occurs in it.
\<close>

fun created_uuid :: "event \<Rightarrow> string list" where
  "created_uuid (Created here u g) = [u]"
| "created_uuid _ = []"

definition created_uuids :: "event list \<Rightarrow> string list" where
  "created_uuids evs = concat (map created_uuid evs)"

text \<open>
  The tasks the transcript records as created, in the order of creation, and those among
  them created for the source item \<open>u\<close>. \<open>recorded base s\<close> ties the
  transcript to the account: the tasks of the account are those it held at the start,
  \<open>base\<close>, followed by exactly the recorded ones.
\<close>

fun task_of :: "event \<Rightarrow> remote_task list" where
  "task_of (Created here u g) = [g]"
| "task_of _ = []"

definition created_tasks :: "event list \<Rightarrow> remote_task list" where
  "created_tasks evs = concat (map task_of evs)"







text \<open>The rows behind the walk of step 2.\<close>

definition heading_rows :: "ThingsReader \<Rightarrow> TMTask \<Rightarrow> TMTask list" where
  "heading_rows r h =
     h # filter (\<lambda>t. TMTask_type t = 0 \<and> TMTask_trashed t = 0 \<and>
                    TMTask_heading t = Some (TMTask_uuid h)) (tasks_table r)"

definition project_rows :: "ThingsReader \<Rightarrow> TMTask \<Rightarrow> TMTask list" where
  "project_rows r p =
     p # concat (map (heading_rows r)
                  (filter (\<lambda>t. TMTask_type t = 2 \<and> TMTask_trashed t = 0 \<and>
                               TMTask_project t = Some (TMTask_uuid p)) (tasks_table r))) @
     filter (\<lambda>t. TMTask_type t = 0 \<and> TMTask_trashed t = 0 \<and>
                TMTask_project t = Some (TMTask_uuid p) \<and> TMTask_heading t = None) (tasks_table r)"



text \<open>A client on whose account no request of the rest of the run raises.\<close>

definition quiet :: "GoogleTasksClient \<Rightarrow> bool" where
  "quiet c = (\<forall>x \<in> set (script c). x = None)"




text \<open>
  The cache step 1 builds when every area finds a list: each area, in turn, is mapped to
  the first list of \<open>task_lists\<close> with exactly its title.
\<close>

definition resolved_cache ::
  "tasklist list \<Rightarrow> area_dict list \<Rightarrow> (string \<rightharpoonup> tasklist) \<Rightarrow> (string \<rightharpoonup> tasklist)" where
  "resolved_cache task_lists areas cache =
     foldl (\<lambda>m area. m(ad_uuid area := first_titled (ad_title area) task_lists)) cache areas"

section \<open>Example inputs\<close>

text \<open>An account with no lists and no tasks, on which every request succeeds.\<close>

definition example_client :: GoogleTasksClient where
  "example_client = \<lparr>tasklists = [], tasks = [], counter = 0, script = [], printed = []\<rparr>"

text \<open>The same account, whose next request raises an \<open>HttpError\<close>.\<close>

definition failing_client :: GoogleTasksClient where
  "failing_client = example_client\<lparr>script := [Some (HttpError 500)]\<rparr>"

text \<open>An account that already holds three lists, two of them with the same title.\<close>

definition listed_client :: GoogleTasksClient where
  "listed_client =
     example_client\<lparr>tasklists := [\<lparr>tl_id = ''l1'', tl_title = Some ''Work''\<rparr>,
                                    \<lparr>tl_id = ''l2'', tl_title = Some ''Home''\<rparr>,
                                    \<lparr>tl_id = ''l3'', tl_title = Some ''Home''\<rparr>]\<rparr>"

definition row ::
  "string \<Rightarrow> int \<Rightarrow> string \<Rightarrow> string option \<Rightarrow> string option \<Rightarrow> string option \<Rightarrow> TMTask" where
  "row u ty t a p h =
     \<lparr>TMTask_uuid = u, TMTask_type = ty, TMTask_title = Some t, TMTask_notes = None,
      TMTask_area = a, TMTask_project = p, TMTask_heading = h, TMTask_status = None,
      TMTask_startDate = None, TMTask_dueDate = None, TMTask_trashed = 0\<rparr>"

text \<open>
  The store of the end-to-end scenario: area Work with project Launch, heading Prep and
  task Write docs under it, and the task Buy milk with no area.
\<close>

definition example_reader :: ThingsReader where
  "example_reader =
     \<lparr>areas_table = [\<lparr>TMArea_uuid = ''a1'', TMArea_title = Some ''Work'', TMArea_trashed = 0\<rparr>],
      tasks_table = [row ''p1'' 1 ''Launch'' (Some ''a1'') None None,
                     row ''h1'' 2 ''Prep'' None (Some ''p1'') None,
                     row ''t1'' 0 ''Write docs'' None (Some ''p1'') (Some ''h1''),
                     row ''t2'' 0 ''Buy milk'' None None None],
      is_closed = False\<rparr>"

text \<open>
  A store whose only area is trashed: two projects and two standalone tasks fall back to
  the default list.
\<close>

definition fallback_reader :: ThingsReader where
  "fallback_reader =
     \<lparr>areas_table = [\<lparr>TMArea_uuid = ''a9'', TMArea_title = Some ''Old'', TMArea_trashed = 1\<rparr>],
      tasks_table = [row ''p1'' 1 ''Launch'' None None None,
                     row ''p2'' 1 ''Move'' (Some ''a9'') None None,
                     row ''t1'' 0 ''Buy milk'' None None None,
                     row ''t2'' 0 ''Call home'' (Some ''a9'') None None],
      is_closed = False\<rparr>"


text \<open>
  An account on which the third request fails: two runs of step 1 on
  \<open>example_reader\<close> make the lookup of the second run fail.
\<close>

definition flaky_client :: GoogleTasksClient where
  "flaky_client = example_client\<lparr>script := [None, None, Some (HttpError 503)]\<rparr>"


text \<open>An account whose next request raises an exception that is not an \<open>HttpError\<close>.\<close>

definition unreachable_client :: GoogleTasksClient where
  "unreachable_client = example_client\<lparr>script := [Some OtherException]\<rparr>"



section \<open>The reader\<close>










section \<open>The client\<close>

lemma execute_account:
  "execute c = (x, c') \<Longrightarrow>
   tasklists c' = tasklists c \<and> tasks c' = tasks c \<and> counter c' = counter c \<and> printed c' = printed c"
  by (auto simp: execute_def split: list.splits)

lemma execute_printed: "fst (execute (c\<lparr>printed := p\<rparr>)) = fst (execute c)"
  by (simp add: execute_def split: list.splits)

lemma first_titled_None: "first_titled t ls = None \<longleftrightarrow> (\<forall>l \<in> set ls. tl_title l \<noteq> t)"
  by (induction ls) auto

lemma first_titled_append:
  "\<forall>x \<in> set pre. tl_title x \<noteq> t \<Longrightarrow> tl_title l = t \<Longrightarrow> first_titled t (pre @ l # post) = Some l"
  by (induction pre) auto

lemma strptime_example: "strptime ''2024-07-20'' = Some (2024, 7, 20)"
  by code_simp

lemma isoformat_example: "isoformat (2024, 7, 20) @ ''Z'' = ''2024-07-20T00:00:00Z''"
  by code_simp

lemma strptime_not_a_date: "strptime ''not-a-date'' = None"
  by code_simp

lemma make_task_body_valid:
  "make_task_body title notes (Some ''2024-07-20'') =
     (\<lparr>tb_title = title, tb_notes = (if truthy notes then notes else None),
       tb_due = Some ''2024-07-20T00:00:00Z''\<rparr>, [])"
  using isoformat_example by (simp add: make_task_body_def strptime_example)

lemma make_task_body_invalid:
  "make_task_body title notes (Some ''not-a-date'') =
     (\<lparr>tb_title = title, tb_notes = (if truthy notes then notes else None), tb_due = None\<rparr>,
      [invalid_due_date_warning ''not-a-date''])"
  by (simp add: make_task_body_def strptime_not_a_date)

lemma make_task_body_no_due:
  "make_task_body title notes None =
     (\<lparr>tb_title = title, tb_notes = (if truthy notes then notes else None), tb_due = None\<rparr>, [])"
  by (simp add: make_task_body_def)

lemma due_text_Str [simp]: "due_text (Some (Str s)) = Inr (Some s)"
  by (simp add: due_text_def)

lemma due_text_None [simp]: "due_text None = Inr None"
  by (simp add: due_text_def)

lemma due_text_cases: "due_text d = Inl TypeError \<or> (\<exists>x. due_text d = Inr x)"
  by (auto simp: due_text_def split: option.splits date_value.splits)

lemma create_task_TypeError: "due_text d = Inl e \<Longrightarrow> create_task c l t n d p = (Inl e, c)"
  by (simp add: create_task_def)

lemma create_task_succeeds:
  assumes "fst (execute c) = None" and "due_text d = Inr x"
  shows "\<exists>c'. create_task c l t n d p =
           (Inr (Some \<lparr>rt_id = fresh_id (counter c), rt_title = tb_title (fst (make_task_body t n x)),
                       rt_notes = tb_notes (fst (make_task_body t n x)),
                       rt_due = tb_due (fst (make_task_body t n x)),
                       rt_parent = (if truthy p then p else None), rt_tasklist = l\<rparr>), c') \<and>
           printed c' = printed c @ snd (make_task_body t n x) \<and>
           tasks c' = tasks c @
             [\<lparr>rt_id = fresh_id (counter c), rt_title = tb_title (fst (make_task_body t n x)),
               rt_notes = tb_notes (fst (make_task_body t n x)),
               rt_due = tb_due (fst (make_task_body t n x)),
               rt_parent = (if truthy p then p else None), rt_tasklist = l\<rparr>] \<and>
           tasklists c' = tasklists c"
proof -
  obtain body w where b: "make_task_body t n x = (body, w)" by (cases "make_task_body t n x")
  let ?c = "c\<lparr>printed := printed c @ w\<rparr>"
  obtain c1 where e: "execute ?c = (None, c1)"
    using assms(1) execute_printed[where c=c and p="printed c @ w"] by (cases "execute ?c") simp
  from execute_account[OF e] show ?thesis
    by (simp add: create_task_def assms(2) b e tasks_insert_def Let_def)
qed

lemma create_task_raises:
  assumes "fst (execute c) = Some e" and "due_text d = Inr x"
  shows "fst (create_task c l t n d p) = (case e of HttpError st \<Rightarrow> Inr None | _ \<Rightarrow> Inl e) \<and>
         tasks (snd (create_task c l t n d p)) = tasks c \<and>
         tasklists (snd (create_task c l t n d p)) = tasklists c"
proof -
  obtain body w where b: "make_task_body t n x = (body, w)" by (cases "make_task_body t n x")
  let ?c = "c\<lparr>printed := printed c @ w\<rparr>"
  obtain c1 where e: "execute ?c = (Some e, c1)"
    using assms(1) execute_printed[where c=c and p="printed c @ w"] by (cases "execute ?c") simp
  from execute_account[OF e] show ?thesis
    by (cases e) (simp_all add: create_task_def assms(2) b e tasks_insert_def Let_def)
qed

text \<open>
  C5. A \<open>create_task\<close> call whose request succeeds, with the due-date text
  \<open>2024-07-20\<close>, creates a task whose due timestamp is \<open>2024-07-20T00:00:00Z\<close>
  (midnight UTC, RFC 3339) and prints nothing. With the text \<open>not-a-date\<close> the task
  is still created, has no due field, the warning is printed, and the task is the very
  task a call without a due date creates: title and notes are unaffected. In both cases
  the created task is the one task the call adds to the account.
\<close>

theorem due_date_degradation:
  assumes "fst (execute c) = None"
  shows "(\<exists>g c'. create_task c l title notes (Some (Str ''2024-07-20'')) parent = (Inr (Some g), c') \<and>
            rt_due g = Some ''2024-07-20T00:00:00Z'' \<and> printed c' = printed c \<and>
            tasks c' = tasks c @ [g]) \<and>
         (\<exists>g c'. create_task c l title notes (Some (Str ''not-a-date'')) parent = (Inr (Some g), c') \<and>
            rt_due g = None \<and>
            printed c' = printed c @ [invalid_due_date_warning ''not-a-date''] \<and>
            rt_title g = title \<and> rt_notes g = (if truthy notes then notes else None) \<and>
            fst (create_task c l title notes None parent) = Inr (Some g) \<and>
            tasks c' = tasks c @ [g])"
proof -
  from create_task_succeeds[OF assms due_text_Str[of "''2024-07-20''"],
      where l=l and t=title and n="notes" and p=parent]
  have a: "\<exists>g c'. create_task c l title notes (Some (Str ''2024-07-20'')) parent = (Inr (Some g), c') \<and>
            rt_due g = Some ''2024-07-20T00:00:00Z'' \<and> printed c' = printed c \<and>
            tasks c' = tasks c @ [g]"
    by (auto simp: make_task_body_valid)
  from create_task_succeeds[OF assms due_text_Str[of "''not-a-date''"],
      where l=l and t=title and n="notes" and p=parent]
    create_task_succeeds[OF assms due_text_None, where l=l and t=title and n="notes" and p=parent]
  have b: "\<exists>g c'. create_task c l title notes (Some (Str ''not-a-date'')) parent = (Inr (Some g), c') \<and>
            rt_due g = None \<and>
            printed c' = printed c @ [invalid_due_date_warning ''not-a-date''] \<and>
            rt_title g = title \<and> rt_notes g = (if truthy notes then notes else None) \<and>
            fst (create_task c l title notes None parent) = Inr (Some g) \<and>
            tasks c' = tasks c @ [g]"
    by (auto simp: make_task_body_invalid make_task_body_no_due)
  from a b show ?thesis by blast
qed

theorem due_date_degradation_witness:
  "fst (execute example_client) = None \<and>
   (\<exists>g c'. create_task example_client ''L'' (Some ''Buy groceries'') (Some ''Milk'')
              (Some (Str ''2024-07-20'')) None = (Inr (Some g), c') \<and>
            rt_due g = Some ''2024-07-20T00:00:00Z'' \<and> printed c' = printed example_client \<and>
            tasks c' = tasks example_client @ [g]) \<and>
   (\<exists>g c'. create_task example_client ''L'' (Some ''Buy groceries'') (Some ''Milk'')
              (Some (Str ''not-a-date'')) None = (Inr (Some g), c') \<and>
            rt_due g = None \<and>
            printed c' = printed example_client @ [invalid_due_date_warning ''not-a-date''] \<and>
            rt_title g = Some ''Buy groceries'' \<and>
            rt_notes g = (if truthy (Some ''Milk'') then Some ''Milk'' else None) \<and>
            fst (create_task example_client ''L'' (Some ''Buy groceries'') (Some ''Milk'') None None) =
              Inr (Some g) \<and>
            tasks c' = tasks example_client @ [g])"
proof -
  have h: "fst (execute example_client) = None"
    by (simp add: execute_def example_client_def)
  show ?thesis using h due_date_degradation[OF h] by simp
qed

text \<open>
  C9. The request body of \<open>create_task\<close> has the title it was given; it has a notes
  field exactly when \<open>notes\<close> is a non-empty string; it has a due field only when
  \<open>due_date_str\<close> is a non-empty string. An empty due-date text gives the body and
  the behaviour of a call with no due date: no due field and no warning.
\<close>

theorem falsy_field_omission:
  "tb_title (fst (make_task_body title notes due_date_str)) = title \<and>
   tb_notes (fst (make_task_body title notes due_date_str)) =
     (case notes of None \<Rightarrow> None | Some n \<Rightarrow> (if n = [] then None else Some n)) \<and>
   (tb_due (fst (make_task_body title notes due_date_str)) \<noteq> None \<longrightarrow>
      (\<exists>d. due_date_str = Some d \<and> d \<noteq> [])) \<and>
   make_task_body title notes (Some []) = make_task_body title notes None \<and>
   tb_due (fst (make_task_body title notes (Some []))) = None \<and>
   snd (make_task_body title notes (Some [])) = [] \<and>
   create_task c l title notes (Some (Str [])) parent = create_task c l title notes None parent"
  by (auto simp: make_task_body_def create_task_def truthy_def Let_def split: option.splits)

theorem falsy_field_omission_witness:
  "make_task_body (Some ''t'') (Some []) (Some []) = (\<lparr>tb_title = Some ''t'', tb_notes = None, tb_due = None\<rparr>, []) \<and>
   tb_notes (fst (make_task_body (Some ''t'') (Some ''n'') (Some ''2024-07-20''))) = Some ''n'' \<and>
   tb_due (fst (make_task_body (Some ''t'') (Some ''n'') (Some ''2024-07-20''))) \<noteq> None \<and>
   (\<exists>d. Some ''2024-07-20'' = Some d \<and> d \<noteq> [])"
proof -
  have h: "tb_due (fst (make_task_body (Some ''t'') (Some ''n'') (Some ''2024-07-20''))) \<noteq> None"
    by (simp add: make_task_body_valid)
  from falsy_field_omission[of "Some ''t''" "Some ''n''" "Some ''2024-07-20''"] h
  have "\<exists>d. Some ''2024-07-20'' = Some d \<and> d \<noteq> []" by blast
  moreover have "make_task_body (Some ''t'') (Some []) (Some []) = (\<lparr>tb_title = Some ''t'', tb_notes = None, tb_due = None\<rparr>, [])"
    by (simp add: make_task_body_def truthy_def)
  moreover have "tb_notes (fst (make_task_body (Some ''t'') (Some ''n'') (Some ''2024-07-20''))) = Some ''n''"
    by (simp add: make_task_body_valid truthy_def)
  ultimately show ?thesis using h by blast
qed

lemma request_raises:
  "fst (tasklists_list c) = Inl e \<longleftrightarrow> fst (execute c) = Some e"
  "fst (tasklists_insert c t) = Inl e \<longleftrightarrow> fst (execute c) = Some e"
  "fst (tasks_list c l) = Inl e \<longleftrightarrow> fst (execute c) = Some e"
  "fst (tasks_insert c l body p) = Inl e \<longleftrightarrow> fst (execute c) = Some e"
  by (cases "execute c"; cases "fst (execute c)";
      simp add: tasklists_list_def tasklists_insert_def tasks_list_def tasks_insert_def Let_def)+

lemma delete_request:
  "tasklists_delete c l = (res, c') \<Longrightarrow>
   (case res of Inl e \<Rightarrow> tasklists c' = tasklists c \<and> tasks c' = tasks c | Inr u \<Rightarrow> True)"
  by (cases "execute c"; cases "fst (execute c)")
    (auto simp: tasklists_delete_def split: if_splits dest!: execute_account)

text \<open>
  C6, as amended. An \<open>HttpError\<close> that the request of a create, list or delete
  call raises (for a delete, also the 404 with which the service answers for a list it
  does not have) is caught in the method: \<open>create_task\<close> and
  \<open>create_task_list\<close> return \<open>None\<close>, \<open>get_task_lists\<close> and
  \<open>get_tasks_in_list\<close> the empty list, \<open>delete_task_list\<close> returns
  normally, and the account is as it was. No method ever raises an \<open>HttpError\<close>.
  Any other exception of the request leaves the method as it is, and so does the
  \<open>TypeError\<close> of \<open>create_task\<close> on a due date that is true and not a
  \<open>str\<close>, raised before the request is made.
\<close>

theorem http_error_conversion:
  "(fst (tasks_insert c l body p) = Inl (HttpError status) \<longrightarrow>
      due_text due \<noteq> Inl TypeError \<longrightarrow>
      fst (create_task c l title notes due parent) = Inr None \<and>
      tasks (snd (create_task c l title notes due parent)) = tasks c \<and>
      tasklists (snd (create_task c l title notes due parent)) = tasklists c) \<and>
   (fst (tasklists_insert c title') = Inl (HttpError status) \<longrightarrow>
      fst (create_task_list c title') = Inr None \<and>
      tasks (snd (create_task_list c title')) = tasks c \<and>
      tasklists (snd (create_task_list c title')) = tasklists c) \<and>
   (fst (tasklists_list c) = Inl (HttpError status) \<longrightarrow>
      fst (get_task_lists c) = Inr [] \<and>
      tasks (snd (get_task_lists c)) = tasks c \<and> tasklists (snd (get_task_lists c)) = tasklists c) \<and>
   (fst (tasks_list c l) = Inl (HttpError status) \<longrightarrow>
      fst (get_tasks_in_list c l) = Inr [] \<and>
      tasks (snd (get_tasks_in_list c l)) = tasks c \<and>
      tasklists (snd (get_tasks_in_list c l)) = tasklists c) \<and>
   (fst (tasklists_delete c l) = Inl (HttpError status) \<longrightarrow>
      fst (delete_task_list c l) = Inr () \<and>
      tasks (snd (delete_task_list c l)) = tasks c \<and>
      tasklists (snd (delete_task_list c l)) = tasklists c) \<and>
   (fst (execute c) = None \<longrightarrow> l \<notin> tl_id ` set (tasklists c) \<longrightarrow>
      fst (tasklists_delete c l) = Inl (HttpError 404)) \<and>
   fst (create_task c l title notes due parent) \<noteq> Inl (HttpError status) \<and>
   fst (create_task_list c title') \<noteq> Inl (HttpError status) \<and>
   fst (get_task_lists c) \<noteq> Inl (HttpError status) \<and>
   fst (get_tasks_in_list c l) \<noteq> Inl (HttpError status) \<and>
   fst (delete_task_list c l) \<noteq> Inl (HttpError status) \<and>
   (fst (execute c) = Some e \<longrightarrow> (\<forall>st. e \<noteq> HttpError st) \<longrightarrow>
      (due_text due \<noteq> Inl TypeError \<longrightarrow> fst (create_task c l title notes due parent) = Inl e) \<and>
      fst (create_task_list c title') = Inl e \<and>
      fst (get_task_lists c) = Inl e \<and>
      fst (get_tasks_in_list c l) = Inl e \<and>
      fst (delete_task_list c l) = Inl e) \<and>
   (due_text due = Inl TypeError \<longrightarrow>
      create_task c l title notes due parent = (Inl TypeError, c))"
proof -
  have 1: "fst (create_task c l title notes due parent) = Inr None \<and>
      tasks (snd (create_task c l title notes due parent)) = tasks c \<and>
      tasklists (snd (create_task c l title notes due parent)) = tasklists c"
    if "fst (tasks_insert c l body p) = Inl (HttpError status)" "due_text due \<noteq> Inl TypeError"
  proof -
    from that(2) due_text_cases[of due] obtain x where x: "due_text due = Inr x" by blast
    from that(1) have "fst (execute c) = Some (HttpError status)" by (simp add: request_raises)
    from create_task_raises[OF this x] show ?thesis by simp
  qed
  have 2: "fst (create_task_list c title') = Inr None \<and>
      tasks (snd (create_task_list c title')) = tasks c \<and>
      tasklists (snd (create_task_list c title')) = tasklists c"
    if "fst (tasklists_insert c title') = Inl (HttpError status)"
  proof -
    from that obtain c1 where e: "execute c = (Some (HttpError status), c1)"
      by (cases "execute c") (simp add: request_raises)
    from execute_account[OF e] show ?thesis
      by (simp add: create_task_list_def tasklists_insert_def e)
  qed
  have 3: "fst (get_task_lists c) = Inr [] \<and>
      tasks (snd (get_task_lists c)) = tasks c \<and> tasklists (snd (get_task_lists c)) = tasklists c"
    if "fst (tasklists_list c) = Inl (HttpError status)"
  proof -
    from that obtain c1 where e: "execute c = (Some (HttpError status), c1)"
      by (cases "execute c") (simp add: request_raises)
    from execute_account[OF e] show ?thesis
      by (simp add: get_task_lists_def tasklists_list_def e)
  qed
  have 4: "fst (get_tasks_in_list c l) = Inr [] \<and>
      tasks (snd (get_tasks_in_list c l)) = tasks c \<and>
      tasklists (snd (get_tasks_in_list c l)) = tasklists c"
    if "fst (tasks_list c l) = Inl (HttpError status)"
  proof -
    from that obtain c1 where e: "execute c = (Some (HttpError status), c1)"
      by (cases "execute c") (simp add: request_raises)
    from execute_account[OF e] show ?thesis
      by (simp add: get_tasks_in_list_def tasks_list_def e)
  qed
  have 5: "fst (delete_task_list c l) = Inr () \<and>
      tasks (snd (delete_task_list c l)) = tasks c \<and>
      tasklists (snd (delete_task_list c l)) = tasklists c"
    if "fst (tasklists_delete c l) = Inl (HttpError status)"
  proof -
    from that obtain c1 where d: "tasklists_delete c l = (Inl (HttpError status), c1)"
      by (cases "tasklists_delete c l") simp
    from delete_request[OF d] show ?thesis by (simp add: delete_task_list_def d)
  qed
  have 6: "fst (tasklists_delete c l) = Inl (HttpError 404)"
    if "fst (execute c) = None" "l \<notin> tl_id ` set (tasklists c)"
  proof -
    from that(1) obtain c1 where e: "execute c = (None, c1)" by (cases "execute c") simp
    from execute_account[OF e] that(2) show ?thesis by (simp add: tasklists_delete_def e)
  qed
  have 7: "fst (create_task c l title notes due parent) \<noteq> Inl (HttpError status)"
  proof (cases "due_text due")
    case (Inl e')
    with due_text_cases[of due] have "e' = TypeError" by simp
    with Inl show ?thesis by (simp add: create_task_def)
  next
    case (Inr x)
    show ?thesis
    proof (cases "fst (execute c)")
      case None
      from create_task_succeeds[OF None Inr, of l title "notes" parent] show ?thesis by auto
    next
      case (Some e')
      from create_task_raises[OF Some Inr, of l title "notes" parent] show ?thesis
        by (cases e') simp_all
    qed
  qed
  have 8: "fst (create_task_list c title') \<noteq> Inl (HttpError status)"
    by (cases "execute c"; cases "fst (execute c)")
      (auto simp: create_task_list_def tasklists_insert_def Let_def split: exn.splits)
  have 9: "fst (get_task_lists c) \<noteq> Inl (HttpError status)"
    by (cases "execute c"; cases "fst (execute c)")
      (auto simp: get_task_lists_def tasklists_list_def split: exn.splits)
  have 10: "fst (get_tasks_in_list c l) \<noteq> Inl (HttpError status)"
    by (cases "execute c"; cases "fst (execute c)")
      (auto simp: get_tasks_in_list_def tasks_list_def split: exn.splits)
  have 11: "fst (delete_task_list c l) \<noteq> Inl (HttpError status)"
    by (cases "execute c"; cases "fst (execute c)")
      (auto simp: delete_task_list_def tasklists_delete_def split: exn.splits)
  have 12: "(due_text due \<noteq> Inl TypeError \<longrightarrow> fst (create_task c l title notes due parent) = Inl e) \<and>
      fst (create_task_list c title') = Inl e \<and>
      fst (get_task_lists c) = Inl e \<and>
      fst (get_tasks_in_list c l) = Inl e \<and>
      fst (delete_task_list c l) = Inl e"
    if "fst (execute c) = Some e" "\<forall>st. e \<noteq> HttpError st"
  proof -
    from that(1) obtain c1 where e: "execute c = (Some e, c1)" by (cases "execute c") simp
    have a: "due_text due \<noteq> Inl TypeError \<longrightarrow> fst (create_task c l title notes due parent) = Inl e"
    proof
      assume "due_text due \<noteq> Inl TypeError"
      with due_text_cases[of due] obtain x where x: "due_text due = Inr x" by blast
      from create_task_raises[OF that(1) x, of l title "notes" parent] that(2)
      show "fst (create_task c l title notes due parent) = Inl e" by (cases e) simp_all
    qed
    from that(2) have b: "fst (create_task_list c title') = Inl e"
      "fst (get_task_lists c) = Inl e" "fst (get_tasks_in_list c l) = Inl e"
      "fst (delete_task_list c l) = Inl e"
      by (cases e; simp add: create_task_list_def tasklists_insert_def get_task_lists_def
          tasklists_list_def get_tasks_in_list_def tasks_list_def delete_task_list_def
          tasklists_delete_def e)+
    from a b show ?thesis by simp
  qed
  have 13: "due_text due = Inl TypeError \<longrightarrow>
      create_task c l title notes due parent = (Inl TypeError, c)"
    by (simp add: create_task_def)
  from 1 2 3 4 5 6 7 8 9 10 11 12 13 show ?thesis by blast
qed

theorem http_error_conversion_witness:
  "fst (tasks_insert failing_client ''L'' \<lparr>tb_title = Some ''t'', tb_notes = None, tb_due = None\<rparr> None) =
     Inl (HttpError 500) \<and>
   fst (create_task failing_client ''L'' (Some ''t'') None None None) = Inr None \<and>
   fst (create_task_list failing_client (Some ''Work'')) = Inr None \<and>
   fst (get_task_lists failing_client) = Inr [] \<and>
   fst (get_tasks_in_list failing_client ''L'') = Inr [] \<and>
   fst (delete_task_list failing_client ''L'') = Inr () \<and>
   fst (tasklists_delete example_client ''L'') = Inl (HttpError 404) \<and>
   fst (delete_task_list example_client ''L'') = Inr () \<and>
   fst (get_task_lists unreachable_client) = Inl OtherException \<and>
   create_task failing_client ''L'' (Some ''t'') None (Some (Datetime 2024 1 1)) None =
     (Inl TypeError, failing_client)"
proof -
  let ?b = "\<lparr>tb_title = Some ''t'', tb_notes = None, tb_due = None\<rparr>"
  have h1: "fst (tasks_insert failing_client ''L'' ?b None) = Inl (HttpError 500)"
    "fst (tasklists_insert failing_client (Some ''Work'')) = Inl (HttpError 500)"
    "fst (tasklists_list failing_client) = Inl (HttpError 500)"
    "fst (tasks_list failing_client ''L'') = Inl (HttpError 500)"
    "fst (tasklists_delete failing_client ''L'') = Inl (HttpError 500)"
    by (simp_all add: tasks_insert_def tasklists_insert_def tasklists_list_def tasks_list_def
        tasklists_delete_def execute_def failing_client_def example_client_def)
  have h2: "due_text None \<noteq> Inl TypeError" by simp
  have h3: "fst (execute example_client) = None" "''L'' \<notin> tl_id ` set (tasklists example_client)"
    by (simp_all add: execute_def example_client_def)
  have h4: "fst (execute unreachable_client) = Some OtherException" "\<forall>st. OtherException \<noteq> HttpError st"
    by (simp_all add: execute_def unreachable_client_def example_client_def)
  have h5: "due_text (Some (Datetime 2024 1 1)) = Inl TypeError"
    by (simp add: due_text_def truthy_value_def)
  from http_error_conversion[of failing_client "''L''" ?b None 500 None "Some ''t''" None None
      "Some ''Work''"] h1 h2
  have a: "fst (create_task failing_client ''L'' (Some ''t'') None None None) = Inr None"
    "fst (create_task_list failing_client (Some ''Work'')) = Inr None"
    "fst (get_task_lists failing_client) = Inr []"
    "fst (get_tasks_in_list failing_client ''L'') = Inr []"
    "fst (delete_task_list failing_client ''L'') = Inr ()"
    by blast+
  from http_error_conversion[of example_client "''L''" ?b None 404] h3
  have b: "fst (tasklists_delete example_client ''L'') = Inl (HttpError 404)"
    "fst (delete_task_list example_client ''L'') = Inr ()"
    by blast+
  from http_error_conversion[of unreachable_client "''L''" ?b None 0 None "Some ''t''" None None
      "Some ''Work''" OtherException] h4
  have c: "fst (get_task_lists unreachable_client) = Inl OtherException" by blast
  from http_error_conversion[of failing_client "''L''" ?b None 0 "Some (Datetime 2024 1 1)"
      "Some ''t''" None None] h5
  have d: "create_task failing_client ''L'' (Some ''t'') None (Some (Datetime 2024 1 1)) None =
     (Inl TypeError, failing_client)"
    by blast
  from h1(1) a b c d show ?thesis by simp
qed

theorem http_error_conversion_counterexample:
  "fst (execute unreachable_client) = Some OtherException \<and>
   fst (create_task unreachable_client ''L'' (Some ''t'') None None None) = Inl OtherException \<and>
   fst (create_task_list unreachable_client (Some ''Work'')) = Inl OtherException \<and>
   fst (get_task_lists unreachable_client) = Inl OtherException \<and>
   fst (get_tasks_in_list unreachable_client ''L'') = Inl OtherException \<and>
   fst (delete_task_list unreachable_client ''L'') = Inl OtherException"
  by (simp add: create_task_def make_task_body_def truthy_def Let_def tasks_insert_def
      create_task_list_def tasklists_insert_def get_task_lists_def tasklists_list_def
      get_tasks_in_list_def tasks_list_def delete_task_list_def tasklists_delete_def
      execute_def unreachable_client_def example_client_def)

text \<open>
  C10. \<open>get_task_list_by_title\<close> returns \<open>None\<close> when the request behind
  \<open>get_task_lists\<close> fails with an \<open>HttpError\<close> and when no list that
  \<open>get_task_lists\<close> yields has exactly the title asked for; otherwise it returns the
  first list with that title, in the order \<open>get_task_lists\<close> yields them.
\<close>

theorem first_match_title_lookup:
  "(fst (tasklists_list c) = Inl (HttpError status) \<longrightarrow> fst (get_task_list_by_title c title) = Inr None) \<and>
   (fst (get_task_lists c) = Inr task_lists \<longrightarrow> (\<forall>l \<in> set task_lists. tl_title l \<noteq> title) \<longrightarrow>
      fst (get_task_list_by_title c title) = Inr None) \<and>
   (fst (get_task_lists c) = Inr (pre @ l # post) \<longrightarrow> (\<forall>x \<in> set pre. tl_title x \<noteq> title) \<longrightarrow>
      tl_title l = title \<longrightarrow> fst (get_task_list_by_title c title) = Inr (Some l))"
proof (intro conjI impI)
  assume "fst (tasklists_list c) = Inl (HttpError status)"
  then show "fst (get_task_list_by_title c title) = Inr None"
    by (cases "tasklists_list c") (simp add: get_task_list_by_title_def get_task_lists_def)
next
  assume "fst (get_task_lists c) = Inr task_lists" "\<forall>l \<in> set task_lists. tl_title l \<noteq> title"
  then show "fst (get_task_list_by_title c title) = Inr None"
    by (cases "get_task_lists c") (simp add: get_task_list_by_title_def first_titled_None)
next
  assume "fst (get_task_lists c) = Inr (pre @ l # post)" "\<forall>x \<in> set pre. tl_title x \<noteq> title"
    "tl_title l = title"
  then show "fst (get_task_list_by_title c title) = Inr (Some l)"
    by (cases "get_task_lists c") (simp add: get_task_list_by_title_def first_titled_append)
qed

theorem first_match_title_lookup_witness:
  "fst (get_task_list_by_title failing_client (Some ''Work'')) = Inr None \<and>
   fst (get_task_list_by_title listed_client (Some ''Shopping'')) = Inr None \<and>
   fst (get_task_list_by_title listed_client (Some ''Home'')) =
     Inr (Some \<lparr>tl_id = ''l2'', tl_title = Some ''Home''\<rparr>)"
proof -
  have a: "fst (tasklists_list failing_client) = Inl (HttpError 500)"
    by (simp add: tasklists_list_def execute_def failing_client_def example_client_def)
  have b: "fst (get_task_lists listed_client) =
             Inr ([\<lparr>tl_id = ''l1'', tl_title = Some ''Work''\<rparr>] @
                  \<lparr>tl_id = ''l2'', tl_title = Some ''Home''\<rparr> #
                  [\<lparr>tl_id = ''l3'', tl_title = Some ''Home''\<rparr>])"
    by (simp add: get_task_lists_def tasklists_list_def execute_def listed_client_def
        example_client_def)
  have c: "\<forall>l \<in> set ([\<lparr>tl_id = ''l1'', tl_title = Some ''Work''\<rparr>] @
                  \<lparr>tl_id = ''l2'', tl_title = Some ''Home''\<rparr> #
                  [\<lparr>tl_id = ''l3'', tl_title = Some ''Home''\<rparr>]). tl_title l \<noteq> Some ''Shopping''"
    by simp
  have d: "\<forall>x \<in> set [\<lparr>tl_id = ''l1'', tl_title = Some ''Work''\<rparr>]. tl_title x \<noteq> Some ''Home''"
    by simp
  from first_match_title_lookup[of failing_client 500 "Some ''Work''"] a
  have 1: "fst (get_task_list_by_title failing_client (Some ''Work'')) = Inr None" by blast
  from first_match_title_lookup[of listed_client _ "Some ''Shopping''"] b c
  have 2: "fst (get_task_list_by_title listed_client (Some ''Shopping'')) = Inr None" by blast
  from first_match_title_lookup[of listed_client _ "Some ''Home''" _
      "[\<lparr>tl_id = ''l1'', tl_title = Some ''Work''\<rparr>]" "\<lparr>tl_id = ''l2'', tl_title = Some ''Home''\<rparr>"
      "[\<lparr>tl_id = ''l3'', tl_title = Some ''Home''\<rparr>]"] b d
  have 3: "fst (get_task_list_by_title listed_client (Some ''Home'')) =
     Inr (Some \<lparr>tl_id = ''l2'', tl_title = Some ''Home''\<rparr>)" by simp
  from 1 2 3 show ?thesis by simp
qed

section \<open>The driver\<close>

lemma lower_char_y: "lower_char ch = CHR ''y'' \<longleftrightarrow> ch = CHR ''y'' \<or> ch = CHR ''Y''"
  by (auto simp: lower_char_def split: if_splits)

lemma lower_y: "lower confirm = ''y'' \<longleftrightarrow> confirm = ''y'' \<or> confirm = ''Y''"
  by (cases confirm) (auto simp: lower_def lower_char_y)

text \<open>
  C7. With the clean-slate flag set and an answer that, lower-cased, is not \<open>y\<close>
  (by \<open>lower_y\<close>: any answer but \<open>y\<close> and \<open>Y\<close>), the program exits with
  status 0, the client and the account behind it are exactly as they were (no request has
  been made), and the connection of the reader is closed.
\<close>

theorem declined_reset:
  "lower confirm \<noteq> ''y'' \<Longrightarrow>
   main True confirm things_reader client = (0, close things_reader, client) \<and>
   is_closed (close things_reader)"
  by (simp add: main_def close_def)

theorem declined_reset_witness:
  "lower ''no'' \<noteq> ''y'' \<and>
   main True ''no'' example_reader example_client =
     (0, example_reader\<lparr>is_closed := True\<rparr>, example_client) \<and>
   is_closed (close example_reader)"
proof -
  have h: "lower ''no'' \<noteq> ''y''"
    by (simp add: lower_y)
  have c: "close example_reader = example_reader\<lparr>is_closed := True\<rparr>"
    by (simp add: close_def example_reader_def)
  show ?thesis using h declined_reset[OF h, of example_reader example_client] c by simp
qed

subsection \<open>The placed set\<close>

lemma for_each_inv:
  assumes "\<And>x s. x \<in> set xs \<Longrightarrow> I s \<Longrightarrow> I (snd (body x s))" and "I s"
  shows "I (snd (for_each body xs s))"
  using assms
proof (induction xs arbitrary: s)
  case Nil
  then show ?case by simp
next
  case (Cons x xs)
  have step: "I (snd (body x s))" using Cons.prems by simp
  show ?case
  proof (cases "body x s")
    case (Pair res s')
    with step have "I s'" by simp
    with Cons Pair show ?thesis by (cases res) auto
  qed
qed

lemma migrate_projects_inv:
  assumes "\<And>projects project s. get_projects r = Inr projects \<Longrightarrow> project \<in> set projects \<Longrightarrow>
             I s \<Longrightarrow> I (snd (migrate_project r project s))"
    and "I s"
  shows "I (migrate_projects r s)"
proof (cases "get_projects r")
  case (Inl e)
  with assms(2) show ?thesis by (simp add: migrate_projects_def)
next
  case (Inr projects)
  have "I (snd (for_each (migrate_project r) projects s))"
    by (rule for_each_inv) (use assms Inr in blast)+
  with Inr show ?thesis by (simp add: migrate_projects_def)
qed

lemma migrate_standalone_tasks_inv:
  assumes "\<And>all_things_tasks task s'. get_tasks r = Inr all_things_tasks \<Longrightarrow>
             task \<in> set (standalone_tasks_to_migrate all_things_tasks s) \<Longrightarrow>
             I s' \<Longrightarrow> I (snd (migrate_standalone_task task s'))"
    and "I s"
  shows "I (migrate_standalone_tasks r s)"
proof (cases "get_tasks r")
  case (Inl e)
  with assms(2) show ?thesis by (simp add: migrate_standalone_tasks_def)
next
  case (Inr all_things_tasks)
  have "I (snd (for_each migrate_standalone_task (standalone_tasks_to_migrate all_things_tasks s) s))"
    by (rule for_each_inv) (use assms Inr in blast)+
  with Inr show ?thesis by (simp add: migrate_standalone_tasks_def)
qed

lemma create_task_result:
  "create_task c l t n d p = (res, c') \<Longrightarrow>
   tasklists c' = tasklists c \<and>
   (case res of
      Inr (Some g) \<Rightarrow> tasks c' = tasks c @ [g] \<and> rt_tasklist g = l \<and> rt_id g \<noteq> [] \<and>
                      rt_parent g = (if truthy p then p else None)
    | _ \<Rightarrow> tasks c' = tasks c)"
  by (auto simp: create_task_def tasks_insert_def Let_def fresh_id_def
      split: prod.splits sum.splits option.splits exn.splits if_splits dest!: execute_account)

lemma get_task_list_by_title_result:
  "get_task_list_by_title c t = (res, c') \<Longrightarrow>
   tasklists c' = tasklists c \<and> tasks c' = tasks c"
  by (auto simp: get_task_list_by_title_def get_task_lists_def tasklists_list_def
      split: prod.splits sum.splits option.splits exn.splits dest!: execute_account)

lemma create_task_list_result:
  "create_task_list c t = (res, c') \<Longrightarrow> tasks c' = tasks c"
  by (auto simp: create_task_list_def tasklists_insert_def Let_def
      split: prod.splits sum.splits option.splits exn.splits dest!: execute_account)

lemma marks_mono: "marks u ts e \<Longrightarrow> set ts \<subseteq> set ts' \<Longrightarrow> marks u ts' e"
  by (cases e) auto

lemma placed_sound_grow:
  assumes "placed_sound s"
    and "set (events s) \<subseteq> set (events s')"
    and "set (tasks (google_tasks_client s)) \<subseteq> set (tasks (google_tasks_client s'))"
    and "\<forall>u \<in> migrated_project_task_ids s' - migrated_project_task_ids s.
           \<exists>e \<in> set (events s'). marks u (tasks (google_tasks_client s')) e"
  shows "placed_sound s'"
  unfolding placed_sound_def
proof
  fix u assume u: "u \<in> migrated_project_task_ids s'"
  show "\<exists>e \<in> set (events s'). marks u (tasks (google_tasks_client s')) e"
  proof (cases "u \<in> migrated_project_task_ids s")
    case True
    with assms(1) obtain e where "e \<in> set (events s)" "marks u (tasks (google_tasks_client s)) e"
      by (auto simp: placed_sound_def)
    with assms(2,3) show ?thesis by (blast intro: marks_mono)
  next
    case False
    with u assms(4) show ?thesis by blast
  qed
qed

lemma placed_sound_migrate_area: "placed_sound s \<Longrightarrow> placed_sound (snd (migrate_area area s))"
  by (erule placed_sound_grow)
    (auto simp: migrate_area_def Let_def split: prod.splits sum.splits option.splits
      dest!: get_task_list_by_title_result create_task_list_result)

lemma placed_sound_default:
  "placed_sound s \<Longrightarrow> placed_sound (snd (get_or_create_default_list s))"
  by (erule placed_sound_grow)
    (auto simp: get_or_create_default_list_def split: prod.splits sum.splits option.splits
      dest!: get_task_list_by_title_result create_task_list_result)

lemma placed_sound_migrate_subtask:
  "here \<noteq> StandaloneTask \<Longrightarrow> placed_sound s \<Longrightarrow> placed_sound (snd (migrate_subtask here l gp task s))"
  by (erule placed_sound_grow)
    (auto simp: migrate_subtask_def Let_def split: prod.splits sum.splits option.splits
      dest!: create_task_result)

lemma placed_sound_migrate_heading:
  assumes "placed_sound s"
  shows "placed_sound (snd (migrate_heading r l gp heading s))"
proof (cases "create_task (google_tasks_client s) l (Some (''--- '' @ fmt (hd_title heading) @ '' ---''))
                None None (Some (rt_id gp))")
  case (Pair res c)
  note res = create_task_result[OF Pair]
  show ?thesis
  proof (cases res)
    case (Inl e)
    with Pair res assms show ?thesis
      by (auto simp: migrate_heading_def Let_def elim!: placed_sound_grow)
  next
    case (Inr v)
    show ?thesis
    proof (cases v)
      case None
      with Inr Pair res assms show ?thesis
        by (auto simp: migrate_heading_def Let_def elim!: placed_sound_grow)
    next
      case (Some g)
      let ?s = "s\<lparr>google_tasks_client := c,
                  migrated_project_task_ids := insert (hd_uuid heading) (migrated_project_task_ids s),
                  events := events s @ [Created HeadingTask (hd_uuid heading) g]\<rparr>"
      have "placed_sound ?s"
        using assms res Inr Some by (auto elim!: placed_sound_grow)
      then have "placed_sound (snd (for_each (migrate_subtask TaskUnderHeading l g)
                   (get_tasks_for_heading r (hd_uuid heading)) ?s))"
        by (rule for_each_inv[rotated]) (simp add: placed_sound_migrate_subtask)
      with Pair Inr Some show ?thesis by (simp add: migrate_heading_def Let_def)
    qed
  qed
qed

lemma placed_sound_migrate_project_into:
  assumes "placed_sound s"
  shows "placed_sound (snd (migrate_project_into r project tli s))"
proof (cases "create_task (google_tasks_client s) (tl_id tli) (Some (fmt (pd_title project)))
                (pd_notes project) None None")
  case (Pair res c)
  note res = create_task_result[OF Pair]
  show ?thesis
  proof (cases res)
    case (Inl e)
    with Pair res assms show ?thesis
      by (auto simp: migrate_project_into_def Let_def elim!: placed_sound_grow)
  next
    case (Inr v)
    show ?thesis
    proof (cases v)
      case None
      with Inr Pair res assms show ?thesis
        by (auto simp: migrate_project_into_def Let_def elim!: placed_sound_grow)
    next
      case (Some g)
      let ?s = "s\<lparr>google_tasks_client := c,
                  migrated_project_task_ids := insert (pd_uuid project) (migrated_project_task_ids s),
                  events := events s @ [Created ProjectTask (pd_uuid project) g]\<rparr>"
      let ?h = "for_each (migrate_heading r (tl_id tli) g) (get_headings_for_project r (pd_uuid project)) ?s"
      have "placed_sound ?s"
        using assms res Inr Some by (auto elim!: placed_sound_grow)
      then have h: "placed_sound (snd ?h)"
        by (rule for_each_inv[rotated]) (simp add: placed_sound_migrate_heading)
      then have "placed_sound (snd (for_each (migrate_subtask DirectTask (tl_id tli) g)
                   (get_tasks_for_project r (pd_uuid project)) (snd ?h)))"
        by (rule for_each_inv[rotated]) (simp add: placed_sound_migrate_subtask)
      with h Pair Inr Some show ?thesis
        by (cases ?h) (auto simp: migrate_project_into_def Let_def split: option.splits)
    qed
  qed
qed

lemma placed_sound_skip:
  "placed_sound s \<Longrightarrow> placed_sound (s\<lparr>events := events s @ evs\<rparr>)"
  by (erule placed_sound_grow) auto

lemma placed_sound_migrate_project:
  assumes "placed_sound s"
  shows "placed_sound (snd (migrate_project r project s))"
proof (cases "cached_list s (pd_area_uuid project)")
  case (Some tli)
  with assms show ?thesis by (simp add: migrate_project_def placed_sound_migrate_project_into)
next
  case None
  have d: "placed_sound (snd (get_or_create_default_list s))"
    using assms by (rule placed_sound_default)
  show ?thesis
  proof (cases "get_or_create_default_list s")
    case (Pair res s')
    with d have "placed_sound s'" by simp
    with None Pair show ?thesis
      by (auto simp: migrate_project_def placed_sound_migrate_project_into placed_sound_skip
          split: sum.splits option.splits)
  qed
qed

lemma placed_sound_migrate_projects:
  "placed_sound s \<Longrightarrow> placed_sound (migrate_projects r s)"
  by (rule migrate_projects_inv) (simp_all add: placed_sound_migrate_project)

lemma placed_sound_migrate_areas:
  "placed_sound s \<Longrightarrow> placed_sound (migrate_areas r s)"
  unfolding migrate_areas_def
  by (rule for_each_inv[rotated]) (simp_all add: placed_sound_migrate_area)

lemma placed_sound_create_standalone_task:
  "placed_sound s \<Longrightarrow> placed_sound (snd (create_standalone_task task tli s))"
  by (erule placed_sound_grow)
    (auto simp: create_standalone_task_def Let_def split: prod.splits sum.splits option.splits
      dest!: create_task_result)

lemma placed_sound_migrate_standalone_task:
  assumes "placed_sound s"
  shows "placed_sound (snd (migrate_standalone_task task s))"
proof (cases "cached_list s (td_area_uuid task)")
  case (Some tli)
  with assms show ?thesis
    by (simp add: migrate_standalone_task_def placed_sound_create_standalone_task)
next
  case None
  have d: "placed_sound (snd (get_or_create_default_list s))"
    using assms by (rule placed_sound_default)
  show ?thesis
  proof (cases "get_or_create_default_list s")
    case (Pair res s')
    with d have "placed_sound s'" by simp
    with None Pair show ?thesis
      by (auto simp: migrate_standalone_task_def placed_sound_create_standalone_task
          placed_sound_skip split: sum.splits option.splits)
  qed
qed

lemma placed_sound_migrate_standalone_tasks:
  "placed_sound s \<Longrightarrow> placed_sound (migrate_standalone_tasks r s)"
  by (rule migrate_standalone_tasks_inv) (simp_all add: placed_sound_migrate_standalone_task)

lemma placed_sound_start: "placed_sound (start c)"
  by (simp add: placed_sound_def start_def)

lemma migrated_default:
  "migrated_project_task_ids (snd (get_or_create_default_list s)) = migrated_project_task_ids s"
  by (auto simp: get_or_create_default_list_def split: prod.splits sum.splits option.splits)

lemma migrated_create_standalone_task:
  "migrated_project_task_ids (snd (create_standalone_task task tli s)) = migrated_project_task_ids s"
  by (simp add: create_standalone_task_def Let_def split: prod.splits sum.splits option.splits)

lemma migrated_migrate_standalone_task:
  "migrated_project_task_ids (snd (migrate_standalone_task task s)) = migrated_project_task_ids s"
proof (cases "cached_list s (td_area_uuid task)")
  case (Some tli)
  then show ?thesis by (simp add: migrate_standalone_task_def migrated_create_standalone_task)
next
  case None
  show ?thesis
  proof (cases "get_or_create_default_list s")
    case (Pair res s')
    with migrated_default[of s] have "migrated_project_task_ids s' = migrated_project_task_ids s"
      by simp
    with None Pair show ?thesis
      by (simp add: migrate_standalone_task_def migrated_create_standalone_task
          split: sum.splits option.splits)
  qed
qed

lemma migrated_migrate_area:
  "migrated_project_task_ids (snd (migrate_area area s)) = migrated_project_task_ids s"
  by (auto simp: migrate_area_def Let_def split: prod.splits sum.splits option.splits)

lemma migrated_migrate_subtask:
  "migrated_project_task_ids s \<subseteq> migrated_project_task_ids (snd (migrate_subtask here l gp task s))"
  by (auto simp: migrate_subtask_def Let_def split: prod.splits sum.splits option.splits)

lemma for_each_mono:
  assumes "\<And>x s. x \<in> set xs \<Longrightarrow> f s \<subseteq> f (snd (body x s))"
  shows "f s \<subseteq> f (snd (for_each body xs s))"
  by (rule for_each_inv[where I = "\<lambda>s'. f s \<subseteq> f s'"]) (use assms in blast)+

lemma migrated_migrate_heading:
  "migrated_project_task_ids s \<subseteq> migrated_project_task_ids (snd (migrate_heading r l gp heading s))"
proof (cases "create_task (google_tasks_client s) l (Some (''--- '' @ fmt (hd_title heading) @ '' ---''))
                None None (Some (rt_id gp))")
  case (Pair res c)
  show ?thesis
  proof (cases res)
    case (Inl e)
    with Pair show ?thesis by (simp add: migrate_heading_def Let_def)
  next
    case (Inr v)
    show ?thesis
    proof (cases v)
      case None
      with Pair Inr show ?thesis by (simp add: migrate_heading_def Let_def)
    next
      case (Some g)
      let ?s = "s\<lparr>google_tasks_client := c,
                  migrated_project_task_ids := insert (hd_uuid heading) (migrated_project_task_ids s),
                  events := events s @ [Created HeadingTask (hd_uuid heading) g]\<rparr>"
      have "migrated_project_task_ids ?s \<subseteq> migrated_project_task_ids
          (snd (for_each (migrate_subtask TaskUnderHeading l g) (get_tasks_for_heading r (hd_uuid heading)) ?s))"
        by (rule for_each_mono) (rule migrated_migrate_subtask)
      then have "migrated_project_task_ids s \<subseteq> migrated_project_task_ids
          (snd (for_each (migrate_subtask TaskUnderHeading l g) (get_tasks_for_heading r (hd_uuid heading)) ?s))"
        by auto
      with Pair Inr Some show ?thesis by (simp add: migrate_heading_def Let_def)
    qed
  qed
qed

lemma migrated_migrate_project_into:
  "migrated_project_task_ids s \<subseteq> migrated_project_task_ids (snd (migrate_project_into r project tli s))"
proof -
  have a: "\<And>s0 g. migrated_project_task_ids s0 \<subseteq> migrated_project_task_ids
          (snd (for_each (migrate_heading r (tl_id tli) g) (get_headings_for_project r (pd_uuid project)) s0))"
    by (rule for_each_mono) (rule migrated_migrate_heading)
  have b: "\<And>s0 g. migrated_project_task_ids s0 \<subseteq> migrated_project_task_ids
          (snd (for_each (migrate_subtask DirectTask (tl_id tli) g) (get_tasks_for_project r (pd_uuid project)) s0))"
    by (rule for_each_mono) (rule migrated_migrate_subtask)
  show ?thesis
  proof (cases "create_task (google_tasks_client s) (tl_id tli) (Some (fmt (pd_title project)))
                (pd_notes project) None None")
    case (Pair res c)
    show ?thesis
    proof (cases res)
      case (Inl e)
      with Pair show ?thesis by (simp add: migrate_project_into_def Let_def)
    next
      case (Inr v)
      show ?thesis
      proof (cases v)
        case None
        with Pair Inr show ?thesis by (simp add: migrate_project_into_def Let_def)
      next
        case (Some g)
        let ?s = "s\<lparr>google_tasks_client := c,
                  migrated_project_task_ids := insert (pd_uuid project) (migrated_project_task_ids s),
                  events := events s @ [Created ProjectTask (pd_uuid project) g]\<rparr>"
        let ?h = "for_each (migrate_heading r (tl_id tli) g) (get_headings_for_project r (pd_uuid project)) ?s"
        have "migrated_project_task_ids s \<subseteq> migrated_project_task_ids (snd ?h)"
          using a[of ?s g] by auto
        moreover have "migrated_project_task_ids (snd ?h) \<subseteq> migrated_project_task_ids
          (snd (for_each (migrate_subtask DirectTask (tl_id tli) g) (get_tasks_for_project r (pd_uuid project)) (snd ?h)))"
          by (rule b)
        ultimately show ?thesis using Pair Inr Some
          by (cases ?h) (auto simp: migrate_project_into_def Let_def split: option.splits)
      qed
    qed
  qed
qed

lemma migrated_migrate_project:
  "migrated_project_task_ids s \<subseteq> migrated_project_task_ids (snd (migrate_project r project s))"
proof (cases "cached_list s (pd_area_uuid project)")
  case (Some tli)
  then show ?thesis by (simp add: migrate_project_def migrated_migrate_project_into)
next
  case None
  show ?thesis
  proof (cases "get_or_create_default_list s")
    case (Pair res s')
    with migrated_default[of s] have eq: "migrated_project_task_ids s' = migrated_project_task_ids s"
      by simp
    show ?thesis
    proof (cases res)
      case (Inl e)
      with None Pair eq show ?thesis by (simp add: migrate_project_def)
    next
      case (Inr v)
      show ?thesis
      proof (cases v)
        case None': None
        with None Pair Inr eq show ?thesis by (simp add: migrate_project_def)
      next
        case (Some tli)
        with None Pair Inr eq migrated_migrate_project_into[of s' r project tli] show ?thesis
          by (simp add: migrate_project_def)
      qed
    qed
  qed
qed

text \<open>
  C8. After step 2 and at the end of the run, every uuid of the placed set has an entry of
  the transcript that records the task created for it in step 2, and that task is in the
  account. Step 1 and step 3 leave the placed set as it is and step 2 only adds to it.
\<close>

theorem placed_set_soundness:
  "placed_sound (migrate_projects r (migrate_areas r (start c))) \<and>
   placed_sound (migration_process r c) \<and>
   migrated_project_task_ids (migrate_areas r s) = migrated_project_task_ids s \<and>
   migrated_project_task_ids s \<subseteq> migrated_project_task_ids (migrate_projects r s) \<and>
   migrated_project_task_ids (migrate_standalone_tasks r s) = migrated_project_task_ids s"
proof -
  have 1: "placed_sound (migrate_projects r (migrate_areas r (start c)))"
    by (intro placed_sound_migrate_projects placed_sound_migrate_areas placed_sound_start)
  then have 2: "placed_sound (migration_process r c)"
    unfolding migration_process_def by (rule placed_sound_migrate_standalone_tasks)
  have 3: "migrated_project_task_ids (migrate_areas r s) = migrated_project_task_ids s"
    unfolding migrate_areas_def
    by (rule for_each_inv[where I = "\<lambda>s'. migrated_project_task_ids s' = migrated_project_task_ids s"])
      (simp_all add: migrated_migrate_area)
  have 4: "migrated_project_task_ids s \<subseteq> migrated_project_task_ids (migrate_projects r s)"
    by (rule migrate_projects_inv[where I = "\<lambda>s'. migrated_project_task_ids s \<subseteq> migrated_project_task_ids s'"])
      (use migrated_migrate_project in blast)+
  have 5: "migrated_project_task_ids (migrate_standalone_tasks r s) = migrated_project_task_ids s"
    by (rule migrate_standalone_tasks_inv[where I = "\<lambda>s'. migrated_project_task_ids s' = migrated_project_task_ids s"])
      (simp_all add: migrated_migrate_standalone_task)
  from 1 2 3 4 5 show ?thesis by simp
qed

theorem placed_set_soundness_witness:
  "placed_sound (migration_process example_reader example_client) \<and>
   migrated_project_task_ids (migration_process example_reader example_client) = {''p1'', ''h1'', ''t1''} \<and>
   migrated_project_task_ids (migration_process example_reader failing_client) = {''p1'', ''h1'', ''t1''}"
proof -
  have a: "migrated_project_task_ids (migration_process example_reader example_client) = {''p1'', ''h1'', ''t1''}"
    by code_simp
  have b: "migrated_project_task_ids (migration_process example_reader failing_client) = {''p1'', ''h1'', ''t1''}"
    by code_simp
  from placed_set_soundness[of example_reader example_client] a b show ?thesis by simp
qed

subsection \<open>The default list\<close>

lemma default_untouched_refl: "default_untouched s s"
  by (simp add: default_untouched_def)

lemma default_untouched_trans:
  "default_untouched s s' \<Longrightarrow> default_untouched s' s'' \<Longrightarrow> default_untouched s s''"
  by (simp add: default_untouched_def)

lemma default_untouched_inv: "default_untouched s s' \<Longrightarrow> default_inv s \<Longrightarrow> default_inv s'"
  by (simp add: default_untouched_def default_inv_def split: option.splits)

lemma for_each_untouched:
  assumes "\<And>x s. x \<in> set xs \<Longrightarrow> default_untouched s (snd (body x s))"
  shows "default_untouched s (snd (for_each body xs s))"
  by (rule for_each_inv[where I = "default_untouched s"])
    (use assms in \<open>blast intro: default_untouched_trans default_untouched_refl\<close>)+

lemma untouched_migrate_area: "default_untouched s (snd (migrate_area area s))"
  by (simp add: migrate_area_def Let_def default_untouched_def default_lookups_def
      default_returns_def split: prod.splits sum.splits option.splits)

lemma untouched_migrate_subtask: "default_untouched s (snd (migrate_subtask here l gp task s))"
  by (simp add: migrate_subtask_def Let_def default_untouched_def default_lookups_def
      default_returns_def split: prod.splits sum.splits option.splits)

lemma untouched_create_standalone_task:
  "default_untouched s (snd (create_standalone_task task tli s))"
  by (simp add: create_standalone_task_def Let_def default_untouched_def default_lookups_def
      default_returns_def split: prod.splits sum.splits option.splits)

lemma untouched_migrate_heading: "default_untouched s (snd (migrate_heading r l gp heading s))"
proof (cases "create_task (google_tasks_client s) l (Some (''--- '' @ fmt (hd_title heading) @ '' ---''))
                None None (Some (rt_id gp))")
  case (Pair res c)
  show ?thesis
  proof (cases res)
    case (Inl e)
    with Pair show ?thesis by (simp add: migrate_heading_def Let_def default_untouched_def)
  next
    case (Inr v)
    show ?thesis
    proof (cases v)
      case None
      with Pair Inr show ?thesis
        by (simp add: migrate_heading_def Let_def default_untouched_def default_lookups_def
            default_returns_def)
    next
      case (Some g)
      let ?s = "s\<lparr>google_tasks_client := c,
                  migrated_project_task_ids := insert (hd_uuid heading) (migrated_project_task_ids s),
                  events := events s @ [Created HeadingTask (hd_uuid heading) g]\<rparr>"
      have "default_untouched s ?s"
        by (simp add: default_untouched_def default_lookups_def default_returns_def)
      moreover have "default_untouched ?s (snd (for_each (migrate_subtask TaskUnderHeading l g)
                       (get_tasks_for_heading r (hd_uuid heading)) ?s))"
        by (rule for_each_untouched) (rule untouched_migrate_subtask)
      ultimately show ?thesis using Pair Inr Some
        by (simp add: migrate_heading_def Let_def) (rule default_untouched_trans)
    qed
  qed
qed

lemma untouched_migrate_project_into:
  "default_untouched s (snd (migrate_project_into r project tli s))"
proof (cases "create_task (google_tasks_client s) (tl_id tli) (Some (fmt (pd_title project)))
                (pd_notes project) None None")
  case (Pair res c)
  show ?thesis
  proof (cases res)
    case (Inl e)
    with Pair show ?thesis by (simp add: migrate_project_into_def Let_def default_untouched_def)
  next
    case (Inr v)
    show ?thesis
    proof (cases v)
      case None
      with Pair Inr show ?thesis
        by (simp add: migrate_project_into_def Let_def default_untouched_def default_lookups_def
            default_returns_def)
    next
      case (Some g)
      let ?s = "s\<lparr>google_tasks_client := c,
                  migrated_project_task_ids := insert (pd_uuid project) (migrated_project_task_ids s),
                  events := events s @ [Created ProjectTask (pd_uuid project) g]\<rparr>"
      let ?h = "for_each (migrate_heading r (tl_id tli) g) (get_headings_for_project r (pd_uuid project)) ?s"
      let ?d = "for_each (migrate_subtask DirectTask (tl_id tli) g)
                   (get_tasks_for_project r (pd_uuid project)) (snd ?h)"
      have 1: "default_untouched s ?s"
        by (simp add: default_untouched_def default_lookups_def default_returns_def)
      have 2: "default_untouched ?s (snd ?h)"
        by (rule for_each_untouched) (rule untouched_migrate_heading)
      have 3: "default_untouched (snd ?h) (snd ?d)"
        by (rule for_each_untouched) (rule untouched_migrate_subtask)
      from 1 2 have 12: "default_untouched s (snd ?h)" by (rule default_untouched_trans)
      from 12 3 have 123: "default_untouched s (snd ?d)" by (rule default_untouched_trans)
      show ?thesis
      proof (cases ?h)
        case h: (Pair hres s')
        with 12 123 Pair Inr Some show ?thesis
          by (cases hres) (simp_all add: migrate_project_into_def Let_def)
      qed
    qed
  qed
qed

lemma default_inv_default: "default_inv s \<Longrightarrow> default_inv (snd (get_or_create_default_list s))"
  by (auto simp: get_or_create_default_list_def default_inv_def default_lookups_def
      default_returns_def split: prod.splits sum.splits option.splits)

lemma default_inv_skip:
  "default_inv s \<Longrightarrow> default_inv (s\<lparr>events := events s @ [Skipped here u]\<rparr>)"
  by (simp add: default_inv_def default_lookups_def default_returns_def split: option.splits)

lemma default_inv_migrate_project:
  assumes "default_inv s"
  shows "default_inv (snd (migrate_project r project s))"
proof (cases "cached_list s (pd_area_uuid project)")
  case (Some tli)
  with assms untouched_migrate_project_into[of s r project tli] show ?thesis
    by (simp add: migrate_project_def default_untouched_inv)
next
  case None
  show ?thesis
  proof (cases "get_or_create_default_list s")
    case (Pair res s')
    with default_inv_default[OF assms] have s': "default_inv s'" by simp
    show ?thesis
    proof (cases res)
      case (Inl e)
      with None Pair s' show ?thesis by (simp add: migrate_project_def)
    next
      case (Inr v)
      show ?thesis
      proof (cases v)
        case None': None
        with None Pair Inr s' show ?thesis by (simp add: migrate_project_def default_inv_skip)
      next
        case (Some tli)
        with None Pair Inr s' untouched_migrate_project_into[of s' r project tli] show ?thesis
          by (simp add: migrate_project_def default_untouched_inv)
      qed
    qed
  qed
qed

lemma default_inv_migrate_standalone_task:
  assumes "default_inv s"
  shows "default_inv (snd (migrate_standalone_task task s))"
proof (cases "cached_list s (td_area_uuid task)")
  case (Some tli)
  with assms untouched_create_standalone_task[of s task tli] show ?thesis
    by (simp add: migrate_standalone_task_def default_untouched_inv)
next
  case None
  show ?thesis
  proof (cases "get_or_create_default_list s")
    case (Pair res s')
    with default_inv_default[OF assms] have s': "default_inv s'" by simp
    show ?thesis
    proof (cases res)
      case (Inl e)
      with None Pair s' show ?thesis by (simp add: migrate_standalone_task_def)
    next
      case (Inr v)
      show ?thesis
      proof (cases v)
        case None': None
        with None Pair Inr s' show ?thesis
          by (simp add: migrate_standalone_task_def default_inv_skip)
      next
        case (Some tli)
        with None Pair Inr s' untouched_create_standalone_task[of s' task tli] show ?thesis
          by (simp add: migrate_standalone_task_def default_untouched_inv)
      qed
    qed
  qed
qed

lemma untouched_migrate_areas: "default_untouched s (migrate_areas r s)"
  unfolding migrate_areas_def by (rule for_each_untouched) (rule untouched_migrate_area)

lemma default_inv_migration_process: "default_inv (migration_process r c)"
proof -
  have "default_inv (start c)"
    by (simp add: default_inv_def start_def default_lookups_def default_returns_def)
  then have "default_inv (migrate_areas r (start c))"
    using untouched_migrate_areas by (rule default_untouched_inv[rotated])
  then have "default_inv (migrate_projects r (migrate_areas r (start c)))"
    by (rule migrate_projects_inv[rotated]) (simp add: default_inv_migrate_project)
  then show ?thesis
    unfolding migration_process_def
    by (rule migrate_standalone_tasks_inv[rotated]) (simp add: default_inv_migrate_standalone_task)
qed

lemma default_created_lookups: "length (default_created evs) \<le> length (default_lookups evs)"
proof (induction evs)
  case Nil
  then show ?case by (simp add: default_created_def default_lookups_def)
next
  case (Cons e evs)
  then show ?case by (cases e) (simp_all add: default_created_def default_lookups_def)
qed

text \<open>
  C4. Over a whole run the default list is created at most once, and every list that a
  call of \<open>get_or_create_default_list\<close> returns is the one memoized list. The
  list is only created when a fallback asked for it: a creation comes with a returned
  value, and step 1 neither looks the default list up nor fills the cache. Once the cache
  holds a list, a call returns it without any request to the service.
\<close>

theorem default_list_memoization:
  "length (default_created (events (migration_process r c))) \<le> 1 \<and>
   (\<forall>d \<in> set (default_returns (events (migration_process r c))).
      default_google_list_cache (migration_process r c) = Some d) \<and>
   (default_created (events (migration_process r c)) \<noteq> [] \<longrightarrow>
      default_returns (events (migration_process r c)) \<noteq> []) \<and>
   default_google_list_cache (migrate_areas r (start c)) = None \<and>
   default_lookups (events (migrate_areas r (start c))) = [] \<and>
   (default_google_list_cache s = Some d \<longrightarrow>
      get_or_create_default_list s = (Inr (Some d), s\<lparr>events := events s @ [DefaultList (Some d)]\<rparr>))"
proof -
  let ?s = "migration_process r c"
  have inv: "default_inv ?s" by (rule default_inv_migration_process)
  have le: "length (default_created (events ?s)) \<le> length (default_lookups (events ?s))"
    by (rule default_created_lookups)
  have 1: "length (default_created (events ?s)) \<le> 1"
    using inv le by (auto simp: default_inv_def split: option.splits)
  have 2: "\<forall>d \<in> set (default_returns (events ?s)). default_google_list_cache ?s = Some d"
    using inv by (auto simp: default_inv_def split: option.splits)
  have 3: "default_created (events ?s) \<noteq> [] \<longrightarrow> default_returns (events ?s) \<noteq> []"
    using inv le by (auto simp: default_inv_def split: option.splits)
  have 4: "default_google_list_cache (migrate_areas r (start c)) = None"
    "default_lookups (events (migrate_areas r (start c))) = []"
    using untouched_migrate_areas[of "start c" r]
    by (simp_all add: default_untouched_def start_def default_lookups_def)
  have 5: "default_google_list_cache s = Some d \<longrightarrow>
      get_or_create_default_list s = (Inr (Some d), s\<lparr>events := events s @ [DefaultList (Some d)]\<rparr>)"
    by (simp add: get_or_create_default_list_def)
  from 1 2 3 4 5 show ?thesis by blast
qed

theorem default_list_memoization_witness:
  "default_created (events (migration_process fallback_reader example_client)) =
     [\<lparr>tl_id = ''g'', tl_title = Some ''Things Imported Tasks''\<rparr>] \<and>
   default_returns (events (migration_process fallback_reader example_client)) =
     replicate 4 \<lparr>tl_id = ''g'', tl_title = Some ''Things Imported Tasks''\<rparr> \<and>
   default_google_list_cache (migration_process fallback_reader example_client) =
     Some \<lparr>tl_id = ''g'', tl_title = Some ''Things Imported Tasks''\<rparr> \<and>
   length (default_created (events (migration_process fallback_reader example_client))) \<le> 1"
proof -
  have a: "default_created (events (migration_process fallback_reader example_client)) =
     [\<lparr>tl_id = ''g'', tl_title = Some ''Things Imported Tasks''\<rparr>]"
    by code_simp
  have b: "default_returns (events (migration_process fallback_reader example_client)) =
     replicate 4 \<lparr>tl_id = ''g'', tl_title = Some ''Things Imported Tasks''\<rparr>"
    by code_simp
  from default_list_memoization[of fallback_reader example_client] a b show ?thesis by simp
qed

subsection \<open>The transcript and the account\<close>

lemma created_tasks_append [simp]:
  "created_tasks (evs @ evs') = created_tasks evs @ created_tasks evs'"
  by (simp add: created_tasks_def)

lemma created_tasks_Nil [simp]: "created_tasks [] = []"
  by (simp add: created_tasks_def)

lemma created_tasks_Cons [simp]: "created_tasks (e # evs) = task_of e @ created_tasks evs"
  by (simp add: created_tasks_def)













subsection \<open>The shape of the hierarchy\<close>






















subsection \<open>No double placement\<close>

lemma created_uuids_append [simp]:
  "created_uuids (evs @ evs') = created_uuids evs @ created_uuids evs'"
  by (simp add: created_uuids_def)

lemma created_uuids_Nil [simp]: "created_uuids [] = []"
  by (simp add: created_uuids_def)

lemma created_uuids_Cons [simp]: "created_uuids (e # evs) = created_uuid e @ created_uuids evs"
  by (simp add: created_uuids_def)

























lemma set_project_rows:
  "set (project_rows r p) =
     insert p
       ((\<Union>h \<in> {t \<in> set (tasks_table r). TMTask_type t = 2 \<and> TMTask_trashed t = 0 \<and>
                    TMTask_project t = Some (TMTask_uuid p)}. set (heading_rows r h)) \<union>
        {t \<in> set (tasks_table r). TMTask_type t = 0 \<and> TMTask_trashed t = 0 \<and>
           TMTask_project t = Some (TMTask_uuid p) \<and> TMTask_heading t = None})"
  by (auto simp: project_rows_def)









































subsection \<open>Step 1 run twice\<close>

lemma quiet_execute_same:
  "quiet c \<Longrightarrow> \<exists>c'. execute c = (None, c') \<and> quiet c' \<and> tasklists c' = tasklists c \<and>
     tasks c' = tasks c \<and> counter c' = counter c"
  by (cases "script c") (auto simp: execute_def quiet_def)

lemma quiet_lookup:
  assumes "quiet c"
  shows "\<exists>c'. get_task_list_by_title c t = (Inr (first_titled t (tasklists c)), c') \<and> quiet c' \<and>
           tasklists c' = tasklists c \<and> counter c' = counter c"
proof -
  from quiet_execute_same[OF assms] obtain c1 where "execute c = (None, c1)" "quiet c1"
    "tasklists c1 = tasklists c" "counter c1 = counter c"
    by blast
  then show ?thesis
    by (simp add: get_task_list_by_title_def get_task_lists_def tasklists_list_def)
qed

lemma quiet_create_list:
  assumes "quiet c"
  shows "\<exists>c'. create_task_list c t =
             (Inr (Some \<lparr>tl_id = fresh_id (counter c), tl_title = t\<rparr>), c') \<and> quiet c' \<and>
           tasklists c' = tasklists c @ [\<lparr>tl_id = fresh_id (counter c), tl_title = t\<rparr>]"
proof -
  from quiet_execute_same[OF assms] obtain c1 where "execute c = (None, c1)" "quiet c1"
    "tasklists c1 = tasklists c" "counter c1 = counter c"
    by blast
  then show ?thesis
    by (simp add: create_task_list_def tasklists_insert_def Let_def quiet_def)
qed

lemma first_titled_Some: "first_titled t ls = Some l \<Longrightarrow> l \<in> set ls \<and> tl_title l = t"
  by (induction ls) (auto split: if_splits)

lemma first_titled_append_Some:
  "first_titled t ls = Some l \<Longrightarrow> first_titled t (ls @ ls') = Some l"
  by (induction ls) (auto split: if_splits)

lemma first_titled_append_None:
  "first_titled t ls = None \<Longrightarrow> first_titled t (ls @ ls') = first_titled t ls'"
  by (induction ls) (auto split: if_splits)

lemma tasklist_copy: "\<lparr>tl_id = tl_id l, tl_title = tl_title l\<rparr> = (l :: tasklist)"
  by (cases l) simp

lemma quiet_migrate_areas:
  assumes "quiet (google_tasks_client s)"
  shows "\<exists>new. tasklists (google_tasks_client (snd (for_each migrate_area areas s))) =
                 tasklists (google_tasks_client s) @ new \<and>
           google_task_lists_cache (snd (for_each migrate_area areas s)) =
             resolved_cache (tasklists (google_tasks_client s) @ new) areas (google_task_lists_cache s) \<and>
           quiet (google_tasks_client (snd (for_each migrate_area areas s))) \<and>
           ad_title ` set areas \<subseteq> tl_title ` set (tasklists (google_tasks_client s) @ new) \<and>
           distinct (map tl_title new) \<and>
           tl_title ` set new \<subseteq> ad_title ` set areas - tl_title ` set (tasklists (google_tasks_client s))"
  using assms
proof (induction areas arbitrary: s)
  case Nil
  then show ?case by (simp add: resolved_cache_def)
next
  case (Cons area areas)
  let ?L = "tasklists (google_tasks_client s)"
  let ?t = "ad_title area"
  from quiet_lookup[OF Cons.prems, of ?t] obtain c
    where look: "get_task_list_by_title (google_tasks_client s) ?t = (Inr (first_titled ?t ?L), c)"
      "quiet c" "tasklists c = ?L" "counter c = counter (google_tasks_client s)"
    by blast
  show ?case
  proof (cases "first_titled ?t ?L")
    case (Some l)
    let ?s = "s\<lparr>google_tasks_client := c,
                google_task_lists_cache := (google_task_lists_cache s)(ad_uuid area \<mapsto> l),
                events := events s @ [FoundList (ad_uuid area) l]\<rparr>"
    have step: "migrate_area area s = (None, ?s)"
      using look Some by (simp add: migrate_area_def Let_def tasklist_copy)
    have q: "quiet (google_tasks_client ?s)" using look(2) by simp
    have Ls: "tasklists (google_tasks_client ?s) = ?L" using look(3) by simp
    have Cs: "google_task_lists_cache ?s = (google_task_lists_cache s)(ad_uuid area \<mapsto> l)" by simp
    from Cons.IH[OF q, unfolded Ls Cs] obtain new
      where ih: "tasklists (google_tasks_client (snd (for_each migrate_area areas ?s))) = ?L @ new"
        "google_task_lists_cache (snd (for_each migrate_area areas ?s)) =
           resolved_cache (?L @ new) areas ((google_task_lists_cache s)(ad_uuid area \<mapsto> l))"
        "quiet (google_tasks_client (snd (for_each migrate_area areas ?s)))"
        "ad_title ` set areas \<subseteq> tl_title ` set (?L @ new)"
        "distinct (map tl_title new)"
        "tl_title ` set new \<subseteq> ad_title ` set areas - tl_title ` set ?L"
      by blast
    have f: "first_titled ?t (?L @ new) = Some l"
      using Some by (rule first_titled_append_Some)
    from first_titled_Some[OF Some] have "?t \<in> tl_title ` set (?L @ new)"
      by (auto intro!: rev_image_eqI[of l])
    with ih f step show ?thesis
      by (intro exI[of _ new]) (auto simp: resolved_cache_def)
  next
    case None
    let ?l = "\<lparr>tl_id = fresh_id (counter c), tl_title = ?t\<rparr>"
    from quiet_create_list[OF look(2), of ?t] obtain c'
      where cr: "create_task_list c ?t = (Inr (Some ?l), c')" "quiet c'"
        "tasklists c' = ?L @ [?l]"
      using look(3) by auto
    let ?s = "s\<lparr>google_tasks_client := c',
                google_task_lists_cache := (google_task_lists_cache s)(ad_uuid area \<mapsto> ?l),
                events := events s @ [CreatedList (ad_uuid area) ?l]\<rparr>"
    have step: "migrate_area area s = (None, ?s)"
      using look None cr by (simp add: migrate_area_def Let_def)
    have q: "quiet (google_tasks_client ?s)" using cr(2) by simp
    have Ls: "tasklists (google_tasks_client ?s) = ?L @ [?l]" using cr(3) by simp
    have Cs: "google_task_lists_cache ?s = (google_task_lists_cache s)(ad_uuid area \<mapsto> ?l)" by simp
    from Cons.IH[OF q, unfolded Ls Cs] obtain new
      where ih: "tasklists (google_tasks_client (snd (for_each migrate_area areas ?s))) = (?L @ [?l]) @ new"
        "google_task_lists_cache (snd (for_each migrate_area areas ?s)) =
           resolved_cache ((?L @ [?l]) @ new) areas ((google_task_lists_cache s)(ad_uuid area \<mapsto> ?l))"
        "quiet (google_tasks_client (snd (for_each migrate_area areas ?s)))"
        "ad_title ` set areas \<subseteq> tl_title ` set ((?L @ [?l]) @ new)"
        "distinct (map tl_title new)"
        "tl_title ` set new \<subseteq> ad_title ` set areas - tl_title ` set (?L @ [?l])"
      by blast
    have "first_titled ?t (?L @ (?l # new)) = first_titled ?t (?l # new)"
      using None by (rule first_titled_append_None)
    then have f: "first_titled ?t (?L @ ?l # new) = Some ?l" by simp
    have notin: "?t \<notin> tl_title ` set ?L"
      using None by (auto simp: first_titled_None)
    have fresh: "?t \<notin> tl_title ` set new"
      using ih(6) by auto
    from ih f step notin fresh show ?thesis
      by (intro exI[of _ "?l # new"]) (auto simp: resolved_cache_def)
  qed
qed

lemma created_only_when_not_found:
  assumes "tasklists (google_tasks_client (snd (migrate_area area s))) \<noteq>
             tasklists (google_tasks_client s)"
  shows "fst (get_task_list_by_title (google_tasks_client s) (ad_title area)) = Inr None"
proof (cases "get_task_list_by_title (google_tasks_client s) (ad_title area)")
  case (Pair res c)
  note same = get_task_list_by_title_result[OF Pair]
  show ?thesis
  proof (cases res)
    case (Inl e)
    with Pair same assms show ?thesis by (simp add: migrate_area_def Let_def)
  next
    case (Inr v)
    with Pair same assms show ?thesis by (cases v) (simp_all add: migrate_area_def Let_def)
  qed
qed

text \<open>
  C3, as amended. Step 1 creates a list for an area only when the lookup by the exact
  title of the area returned \<open>None\<close>. When no request raises: the first run creates at
  most one list for each distinct area title, and none for a title the account already
  has; it maps every area that is not trashed to the first list with exactly its title;
  a second run against the account the first run left creates no list and maps every
  area to the same list as the first run.
\<close>

theorem idempotent_list_resolution:
  assumes "quiet c"
  shows "(tasklists (google_tasks_client (snd (migrate_area area s))) \<noteq> tasklists (google_tasks_client s) \<longrightarrow>
            fst (get_task_list_by_title (google_tasks_client s) (ad_title area)) = Inr None) \<and>
         (\<exists>new. tasklists (google_tasks_client (migrate_areas r (start c))) = tasklists c @ new \<and>
            distinct (map tl_title new) \<and>
            tl_title ` set new \<subseteq> ad_title ` set (get_areas r) - tl_title ` set (tasklists c)) \<and>
         ad_title ` set (get_areas r) \<subseteq>
           tl_title ` set (tasklists (google_tasks_client (migrate_areas r (start c)))) \<and>
         google_task_lists_cache (migrate_areas r (start c)) =
           resolved_cache (tasklists (google_tasks_client (migrate_areas r (start c)))) (get_areas r)
             Map.empty \<and>
         tasklists (google_tasks_client
             (migrate_areas r (start (google_tasks_client (migrate_areas r (start c)))))) =
           tasklists (google_tasks_client (migrate_areas r (start c))) \<and>
         google_task_lists_cache
             (migrate_areas r (start (google_tasks_client (migrate_areas r (start c))))) =
           google_task_lists_cache (migrate_areas r (start c))"
proof -
  let ?s1 = "migrate_areas r (start c)"
  let ?c1 = "google_tasks_client ?s1"
  let ?s2 = "migrate_areas r (start ?c1)"
  have q0: "quiet (google_tasks_client (start c))" using assms by (simp add: start_def)
  have L0: "tasklists (google_tasks_client (start c)) = tasklists c" by (simp add: start_def)
  have C0: "google_task_lists_cache (start c) = Map.empty" for c by (simp add: start_def)
  from quiet_migrate_areas[OF q0, of "get_areas r", folded migrate_areas_def, unfolded L0 C0]
  obtain new where 1: "tasklists ?c1 = tasklists c @ new"
    "google_task_lists_cache ?s1 = resolved_cache (tasklists c @ new) (get_areas r) Map.empty"
    "quiet ?c1"
    "ad_title ` set (get_areas r) \<subseteq> tl_title ` set (tasklists c @ new)"
    "distinct (map tl_title new)"
    "tl_title ` set new \<subseteq> ad_title ` set (get_areas r) - tl_title ` set (tasklists c)"
    by blast
  have q1: "quiet (google_tasks_client (start ?c1))" using 1(3) by (simp add: start_def)
  have L1: "tasklists (google_tasks_client (start ?c1)) = tasklists ?c1" by (simp add: start_def)
  from quiet_migrate_areas[OF q1, of "get_areas r", folded migrate_areas_def, unfolded L1 C0]
  obtain new2 where 2: "tasklists (google_tasks_client ?s2) = tasklists ?c1 @ new2"
    "google_task_lists_cache ?s2 = resolved_cache (tasklists ?c1 @ new2) (get_areas r) Map.empty"
    "tl_title ` set new2 \<subseteq> ad_title ` set (get_areas r) - tl_title ` set (tasklists ?c1)"
    by blast
  have sub: "ad_title ` set (get_areas r) \<subseteq> tl_title ` set (tasklists ?c1)"
    using 1(4) 1(1) by simp
  with 2(3) have "tl_title ` set new2 \<subseteq> {}" by blast
  then have n2: "new2 = []" by simp
  have a: "tasklists (google_tasks_client (snd (migrate_area area s))) \<noteq> tasklists (google_tasks_client s) \<longrightarrow>
            fst (get_task_list_by_title (google_tasks_client s) (ad_title area)) = Inr None"
    using created_only_when_not_found[of area s] by blast
  have b: "\<exists>new. tasklists ?c1 = tasklists c @ new \<and> distinct (map tl_title new) \<and>
            tl_title ` set new \<subseteq> ad_title ` set (get_areas r) - tl_title ` set (tasklists c)"
    using 1(1,5,6) by blast
  have d: "google_task_lists_cache ?s1 = resolved_cache (tasklists ?c1) (get_areas r) Map.empty"
    using 1(1,2) by simp
  have e: "tasklists (google_tasks_client ?s2) = tasklists ?c1"
    using 2(1) n2 by simp
  have f: "google_task_lists_cache ?s2 = google_task_lists_cache ?s1"
    using 2(2) n2 d by simp
  from a b sub d e f show ?thesis by blast
qed

theorem idempotent_list_resolution_witness:
  "quiet example_client \<and>
   tasklists (google_tasks_client (migrate_areas example_reader (start example_client))) =
     [\<lparr>tl_id = ''g'', tl_title = Some ''Work''\<rparr>] \<and>
   tasklists (google_tasks_client
       (migrate_areas example_reader
          (start (google_tasks_client (migrate_areas example_reader (start example_client)))))) =
     [\<lparr>tl_id = ''g'', tl_title = Some ''Work''\<rparr>] \<and>
   google_task_lists_cache
       (migrate_areas example_reader
          (start (google_tasks_client (migrate_areas example_reader (start example_client))))) =
     google_task_lists_cache (migrate_areas example_reader (start example_client))"
proof -
  have q: "quiet example_client"
    by (simp add: quiet_def example_client_def)
  have a: "tasklists (google_tasks_client (migrate_areas example_reader (start example_client))) =
     [\<lparr>tl_id = ''g'', tl_title = Some ''Work''\<rparr>]"
    by code_simp
  from idempotent_list_resolution[OF q, of _ _ example_reader] q a show ?thesis by simp
qed

theorem idempotent_list_resolution_counterexample:
  "map ad_title (get_areas example_reader) = [Some ''Work''] \<and>
   tasklists (google_tasks_client (migrate_areas example_reader (start flaky_client))) =
     [\<lparr>tl_id = ''g'', tl_title = Some ''Work''\<rparr>] \<and>
   tasklists (google_tasks_client
       (migrate_areas example_reader
          (start (google_tasks_client (migrate_areas example_reader (start flaky_client)))))) =
     [\<lparr>tl_id = ''g'', tl_title = Some ''Work''\<rparr>, \<lparr>tl_id = ''gx'', tl_title = Some ''Work''\<rparr>] \<and>
   google_task_lists_cache
       (migrate_areas example_reader
          (start (google_tasks_client (migrate_areas example_reader (start flaky_client))))) ''a1'' =
     Some \<lparr>tl_id = ''gx'', tl_title = Some ''Work''\<rparr>"
proof -
  have 1: "map ad_title (get_areas example_reader) = [Some ''Work'']"
    by code_simp
  have 2: "tasklists (google_tasks_client (migrate_areas example_reader (start flaky_client))) =
     [\<lparr>tl_id = ''g'', tl_title = Some ''Work''\<rparr>]"
    by code_simp
  have 3: "tasklists (google_tasks_client
       (migrate_areas example_reader
          (start (google_tasks_client (migrate_areas example_reader (start flaky_client)))))) =
     [\<lparr>tl_id = ''g'', tl_title = Some ''Work''\<rparr>, \<lparr>tl_id = ''gx'', tl_title = Some ''Work''\<rparr>]"
    by code_simp
  have 4: "google_task_lists_cache
       (migrate_areas example_reader
          (start (google_tasks_client (migrate_areas example_reader (start flaky_client))))) ''a1'' =
     Some \<lparr>tl_id = ''gx'', tl_title = Some ''Work''\<rparr>"
    by code_simp
  from 1 2 3 4 show ?thesis by simp
qed

end
